theory Spec2Isabelle
  imports Main "HOL-Library.Word" "HOL-Library.Char_ord" "HOL-Library.List_Lexorder"
begin

unbundle bit_operations_syntax

section \<open>Byte strings, hashes and the key tags of txdb.cpp\<close>

text \<open>
  A serialized key or value is a byte string. A \<open>uint256\<close> (and a \<open>uint160\<close>) is the
  fixed-size byte blob of the hash; its serialization is the blob itself, so the model
  identifies the hash with its bytes. \<open>IsNull\<close> holds when every byte is zero.
\<close>

type_synonym bytes = "char list"
type_synonym uint256 = bytes
type_synonym uint160 = bytes

definition IsNull :: "uint256 \<Rightarrow> bool" where
  "IsNull h = list_all (\<lambda>b. b = CHR 0x00) h"

text \<open>The default-constructed hash \<open>uint256()\<close>: 32 zero bytes.\<close>

definition uint256_zero :: uint256 where
  "uint256_zero = replicate 32 (CHR 0x00)"

text \<open>For concrete instances: the hash made of 32 equal bytes.\<close>

definition hash_of_byte :: "char \<Rightarrow> uint256" where
  "hash_of_byte c = replicate 32 c"

text \<open>The one-character prefixes, lines 23 to 42 of txdb.cpp.\<close>

definition DB_SPROUT_ANCHOR :: char where "DB_SPROUT_ANCHOR = CHR ''A''"
definition DB_SAPLING_ANCHOR :: char where "DB_SAPLING_ANCHOR = CHR ''Z''"
definition DB_NULLIFIER :: char where "DB_NULLIFIER = CHR ''s''"
definition DB_SAPLING_NULLIFIER :: char where "DB_SAPLING_NULLIFIER = CHR ''S''"
definition DB_COINS :: char where "DB_COINS = CHR ''c''"
definition DB_BLOCK_FILES :: char where "DB_BLOCK_FILES = CHR ''f''"
definition DB_TXINDEX :: char where "DB_TXINDEX = CHR ''t''"
definition DB_ADDRESSINDEX :: char where "DB_ADDRESSINDEX = CHR ''d''"
definition DB_ADDRESSUNSPENTINDEX :: char where "DB_ADDRESSUNSPENTINDEX = CHR ''u''"
definition DB_TIMESTAMPINDEX :: char where "DB_TIMESTAMPINDEX = CHR ''S''"
definition DB_BLOCKHASHINDEX :: char where "DB_BLOCKHASHINDEX = CHR ''z''"
definition DB_SPENTINDEX :: char where "DB_SPENTINDEX = CHR ''p''"
definition DB_BLOCK_INDEX :: char where "DB_BLOCK_INDEX = CHR ''b''"
definition DB_BEST_BLOCK :: char where "DB_BEST_BLOCK = CHR ''B''"
definition DB_BEST_SPROUT_ANCHOR :: char where "DB_BEST_SPROUT_ANCHOR = CHR ''a''"
definition DB_BEST_SAPLING_ANCHOR :: char where "DB_BEST_SAPLING_ANCHOR = CHR ''z''"
definition DB_FLAG :: char where "DB_FLAG = CHR ''F''"
definition DB_REINDEX_FLAG :: char where "DB_REINDEX_FLAG = CHR ''R''"
definition DB_LAST_BLOCK :: char where "DB_LAST_BLOCK = CHR ''l''"

text \<open>
  The logical key types, one per prefix constant, the tag each one carries, and the
  database whose code uses it: \<open>CCoinsViewDB\<close> keeps its own wrapper \<open>db\<close> (opened on
  "chainstate"), \<open>CBlockTreeDB\<close> is itself a wrapper (opened on "blocks/index").
\<close>

datatype key_type =
    SPROUT_ANCHOR | SAPLING_ANCHOR | NULLIFIER | SAPLING_NULLIFIER | COINS
  | BEST_BLOCK | BEST_SPROUT_ANCHOR | BEST_SAPLING_ANCHOR
  | BLOCK_FILES | TXINDEX | ADDRESSINDEX | ADDRESSUNSPENTINDEX | TIMESTAMPINDEX
  | BLOCKHASHINDEX | SPENTINDEX | BLOCK_INDEX | FLAG | REINDEX_FLAG | LAST_BLOCK

fun type_tag :: "key_type \<Rightarrow> char" where
  "type_tag SPROUT_ANCHOR = DB_SPROUT_ANCHOR"
| "type_tag SAPLING_ANCHOR = DB_SAPLING_ANCHOR"
| "type_tag NULLIFIER = DB_NULLIFIER"
| "type_tag SAPLING_NULLIFIER = DB_SAPLING_NULLIFIER"
| "type_tag COINS = DB_COINS"
| "type_tag BEST_BLOCK = DB_BEST_BLOCK"
| "type_tag BEST_SPROUT_ANCHOR = DB_BEST_SPROUT_ANCHOR"
| "type_tag BEST_SAPLING_ANCHOR = DB_BEST_SAPLING_ANCHOR"
| "type_tag BLOCK_FILES = DB_BLOCK_FILES"
| "type_tag TXINDEX = DB_TXINDEX"
| "type_tag ADDRESSINDEX = DB_ADDRESSINDEX"
| "type_tag ADDRESSUNSPENTINDEX = DB_ADDRESSUNSPENTINDEX"
| "type_tag TIMESTAMPINDEX = DB_TIMESTAMPINDEX"
| "type_tag BLOCKHASHINDEX = DB_BLOCKHASHINDEX"
| "type_tag SPENTINDEX = DB_SPENTINDEX"
| "type_tag BLOCK_INDEX = DB_BLOCK_INDEX"
| "type_tag FLAG = DB_FLAG"
| "type_tag REINDEX_FLAG = DB_REINDEX_FLAG"
| "type_tag LAST_BLOCK = DB_LAST_BLOCK"

datatype database = Chainstate | BlockTree

fun database_of :: "key_type \<Rightarrow> database" where
  "database_of SPROUT_ANCHOR = Chainstate"
| "database_of SAPLING_ANCHOR = Chainstate"
| "database_of NULLIFIER = Chainstate"
| "database_of SAPLING_NULLIFIER = Chainstate"
| "database_of COINS = Chainstate"
| "database_of BEST_BLOCK = Chainstate"
| "database_of BEST_SPROUT_ANCHOR = Chainstate"
| "database_of BEST_SAPLING_ANCHOR = Chainstate"
| "database_of _ = BlockTree"

text \<open>
  Every key handed to the wrapper is either the tag alone (a scalar slot) or
  \<open>make_pair(tag, payload)\<close>, serialized as the tag byte followed by the payload's
  serialization. The payload arrives here already serialized.
\<close>

definition encode :: "key_type \<Rightarrow> bytes \<Rightarrow> bytes" where
  "encode t payload = type_tag t # payload"

section \<open>The key-value engine\<close>

text \<open>
  Modelled from the spec: the wrapper class (\<open>CDBWrapper\<close>, \<open>CDBBatch\<close>, \<open>CDBIterator\<close>)
  is not part of txdb.cpp. Section 6 of the specification asks of the engine point reads,
  an existence test, a batch of puts and deletes committed atomically with a result, and an
  iterator with seek, next, valid, key and value over keys ordered bytewise. The store is
  the list of its entries in key order; \<open>committed\<close> says whether the engine applies the
  batch it is handed.
\<close>

type_synonym store = "(bytes \<times> bytes) list"

definition db_get :: "store \<Rightarrow> bytes \<Rightarrow> bytes option" where
  "db_get db k = map_of db k"

definition Exists :: "store \<Rightarrow> bytes \<Rightarrow> bool" where
  "Exists db k = (db_get db k \<noteq> None)"

fun db_put :: "bytes \<Rightarrow> bytes \<Rightarrow> store \<Rightarrow> store" where
  "db_put k v [] = [(k, v)]"
| "db_put k v ((k', v') # rest) =
     (if k = k' then (k, v) # rest
      else if k < k' then (k, v) # (k', v') # rest
      else (k', v') # db_put k v rest)"

fun db_delete :: "bytes \<Rightarrow> store \<Rightarrow> store" where
  "db_delete k [] = []"
| "db_delete k ((k', v') # rest) =
     (if k = k' then db_delete k rest else (k', v') # db_delete k rest)"

datatype batch_op = Write bytes bytes | Erase bytes

type_synonym CDBBatch = "batch_op list"

fun apply_op :: "store \<Rightarrow> batch_op \<Rightarrow> store" where
  "apply_op db (Write k v) = db_put k v db"
| "apply_op db (Erase k) = db_delete k db"

definition WriteBatch :: "bool \<Rightarrow> store \<Rightarrow> CDBBatch \<Rightarrow> bool \<times> store" where
  "WriteBatch committed db batch =
     (if committed then (True, foldl apply_op db batch) else (False, db))"

text \<open>
  \<open>Read\<close> fetches the bytes under a key and decodes them into the caller's variable; it
  reports false, leaving the variable as it was, when the key is absent or the bytes do not
  decode.
\<close>

definition Read :: "store \<Rightarrow> bytes \<Rightarrow> (bytes \<Rightarrow> 'v option) \<Rightarrow> 'v \<Rightarrow> bool \<times> 'v" where
  "Read db k Unserialize cur =
     (case db_get db k of
        None \<Rightarrow> (False, cur)
      | Some bs \<Rightarrow> (case Unserialize bs of None \<Rightarrow> (False, cur) | Some v \<Rightarrow> (True, v)))"

text \<open>\<open>Seek\<close> positions the iterator at the first key not below the target: what is left
  of the store from there on is the iterator's state.\<close>

definition Seek :: "bytes \<Rightarrow> store \<Rightarrow> store" where
  "Seek target db = dropWhile (\<lambda>(k, v). k < target) db"

section \<open>The coin database: CCoinsViewDB\<close>

text \<open>
  The commitment trees, the coin records and the cache entries are declared outside
  txdb.cpp; the code uses them through a few members, which the model takes as they are
  used. A tree type (the template argument \<open>Tree\<close> of \<open>BatchWriteAnchors\<close>) gives its
  \<open>empty_root()\<close>, its default-constructed tree and its serialization. A coin record
  type gives \<open>IsPruned()\<close>, its outputs \<open>vout\<close> and its serialization; an output
  gives \<open>IsNull()\<close>, \<open>nValue\<close> (a 64-bit amount) and its serialization.
\<close>

record 't Tree =
  empty_root :: uint256
  new_tree :: 't
  Serialize :: "'t \<Rightarrow> bytes"
  Unserialize :: "bytes \<Rightarrow> 't option"

record ('c, 'o) Coins =
  IsPruned :: "'c \<Rightarrow> bool"
  vout :: "'c \<Rightarrow> 'o list"
  SerializeCoins :: "'c \<Rightarrow> bytes"
  UnserializeCoins :: "bytes \<Rightarrow> 'c option"
  IsNullOut :: "'o \<Rightarrow> bool"
  nValue :: "'o \<Rightarrow> 64 word"
  SerializeOut :: "'o \<Rightarrow> bytes"

text \<open>
  The cache entries: every entry has \<open>flags\<close> (an unsigned char, bit 0 is \<open>DIRTY\<close>); a
  nullifier entry adds \<open>entered\<close>, an anchor entry adds \<open>entered\<close> and \<open>tree\<close>, a coin
  entry adds \<open>coins\<close>. The cache maps are unordered maps; the list gives the entries in
  the order the iteration visits them.
\<close>

record CacheEntry =
  flags :: "8 word"

record CNullifiersCacheEntry = CacheEntry +
  entered :: bool

record 't CAnchorsCacheEntry = CNullifiersCacheEntry +
  tree :: 't

record 'c CCoinsCacheEntry = CacheEntry +
  coins :: 'c

definition DIRTY :: "8 word" where
  "DIRTY = push_bit 0 1"

type_synonym CNullifiersMap = "(uint256 \<times> CNullifiersCacheEntry) list"
type_synonym 't CAnchorsMap = "(uint256 \<times> 't CAnchorsCacheEntry) list"
type_synonym 'c CCoinsMap = "(uint256 \<times> 'c CCoinsCacheEntry) list"

text \<open>The serialization of a bool is one byte, 1 for true.\<close>

definition SerializeBool :: "bool \<Rightarrow> bytes" where
  "SerializeBool b = [if b then CHR 0x01 else CHR 0x00]"

text \<open>
  \<open>GetSproutAnchorAt\<close> and \<open>GetSaplingAnchorAt\<close>. The result is the returned bool, the
  caller's tree afterwards, and the keys read from the database on the way.
\<close>

definition GetSproutAnchorAt ::
  "'t Tree \<Rightarrow> store \<Rightarrow> uint256 \<Rightarrow> 't \<Rightarrow> bool \<times> 't \<times> bytes list" where
  "GetSproutAnchorAt SproutMerkleTree db rt tree_in =
     (if rt = empty_root SproutMerkleTree then (True, new_tree SproutMerkleTree, [])
      else
        (let (read, tree') = Read db (DB_SPROUT_ANCHOR # rt) (Unserialize SproutMerkleTree) tree_in
         in (read, tree', [DB_SPROUT_ANCHOR # rt])))"

definition GetSaplingAnchorAt ::
  "'t Tree \<Rightarrow> store \<Rightarrow> uint256 \<Rightarrow> 't \<Rightarrow> bool \<times> 't \<times> bytes list" where
  "GetSaplingAnchorAt SaplingMerkleTree db rt tree_in =
     (if rt = empty_root SaplingMerkleTree then (True, new_tree SaplingMerkleTree, [])
      else
        (let (read, tree') = Read db (DB_SAPLING_ANCHOR # rt) (Unserialize SaplingMerkleTree) tree_in
         in (read, tree', [DB_SAPLING_ANCHOR # rt])))"

text \<open>Reading a \<open>uint256\<close> from a stream takes 32 bytes and throws when there are fewer.\<close>

definition Unserialize_uint256 :: "bytes \<Rightarrow> uint256 option" where
  "Unserialize_uint256 bs = (if length bs < 32 then None else Some (take 32 bs))"

definition GetBestBlock :: "store \<Rightarrow> uint256" where
  "GetBestBlock db =
     (let (read, hashBestChain) = Read db [DB_BEST_BLOCK] Unserialize_uint256 uint256_zero in
      if \<not> read then uint256_zero else hashBestChain)"

text \<open>
  The flush loops. Each one visits the first remaining entry, adds at most one operation
  to the batch, steps the iterator and erases the visited entry from the map; it goes on
  with what is left of the map and returns the batch and the map as the loop leaves them.
\<close>

fun BatchWriteNullifiers ::
  "CDBBatch \<Rightarrow> CNullifiersMap \<Rightarrow> char \<Rightarrow> CDBBatch \<times> CNullifiersMap" where
  "BatchWriteNullifiers batch [] dbChar = (batch, [])"
| "BatchWriteNullifiers batch ((nf, e) # mapToUse) dbChar =
     BatchWriteNullifiers
       (if flags e AND DIRTY \<noteq> 0 then
          (if \<not> entered e then batch @ [Erase (dbChar # nf)]
           else batch @ [Write (dbChar # nf) (SerializeBool True)])
        else batch)
       mapToUse dbChar"

fun BatchWriteAnchors ::
  "'t Tree \<Rightarrow> CDBBatch \<Rightarrow> 't CAnchorsMap \<Rightarrow> char \<Rightarrow> CDBBatch \<times> 't CAnchorsMap" where
  "BatchWriteAnchors T batch [] dbChar = (batch, [])"
| "BatchWriteAnchors T batch ((rt, e) # mapToUse) dbChar =
     BatchWriteAnchors T
       (if flags e AND DIRTY \<noteq> 0 then
          (if \<not> entered e then batch @ [Erase (dbChar # rt)]
           else if rt \<noteq> empty_root T then batch @ [Write (dbChar # rt) (Serialize T (tree e))]
           else batch)
        else batch)
       mapToUse dbChar"

text \<open>The loop over \<open>mapCoins\<close> at the head of \<open>BatchWrite\<close>; the counters \<open>count\<close> and
  \<open>changed\<close> only feed the log line and are left out.\<close>

fun BatchWriteCoins ::
  "('c, 'o) Coins \<Rightarrow> CDBBatch \<Rightarrow> 'c CCoinsMap \<Rightarrow> CDBBatch \<times> 'c CCoinsMap" where
  "BatchWriteCoins C batch [] = (batch, [])"
| "BatchWriteCoins C batch ((txid, e) # mapCoins) =
     BatchWriteCoins C
       (if flags e AND DIRTY \<noteq> 0 then
          (if IsPruned C (coins e) then batch @ [Erase (DB_COINS # txid)]
           else batch @ [Write (DB_COINS # txid) (SerializeCoins C (coins e))])
        else batch)
       mapCoins"

text \<open>The best-slot writes at the end of \<open>BatchWrite\<close>.\<close>

definition BatchWriteBest :: "CDBBatch \<Rightarrow> uint256 \<Rightarrow> uint256 \<Rightarrow> uint256 \<Rightarrow> CDBBatch" where
  "BatchWriteBest batch hashBlock hashSproutAnchor hashSaplingAnchor =
     (let b1 = (if \<not> IsNull hashBlock then batch @ [Write [DB_BEST_BLOCK] hashBlock] else batch);
          b2 = (if \<not> IsNull hashSproutAnchor
                then b1 @ [Write [DB_BEST_SPROUT_ANCHOR] hashSproutAnchor] else b1)
      in if \<not> IsNull hashSaplingAnchor
         then b2 @ [Write [DB_BEST_SAPLING_ANCHOR] hashSaplingAnchor] else b2)"

text \<open>
  \<open>BatchWrite\<close>: the batch it builds together with the five maps as the loops leave
  them, and the call itself, which hands the batch to the engine and returns the engine's
  answer, the database and the five maps afterwards.
\<close>

definition BatchWrite_build ::
  "('c, 'o) Coins \<Rightarrow> 's Tree \<Rightarrow> 'z Tree \<Rightarrow> 'c CCoinsMap \<Rightarrow> uint256 \<Rightarrow> uint256 \<Rightarrow> uint256 \<Rightarrow>
     's CAnchorsMap \<Rightarrow> 'z CAnchorsMap \<Rightarrow> CNullifiersMap \<Rightarrow> CNullifiersMap \<Rightarrow>
     CDBBatch \<times> 'c CCoinsMap \<times> 's CAnchorsMap \<times> 'z CAnchorsMap \<times> CNullifiersMap \<times> CNullifiersMap"
  where
  "BatchWrite_build C SproutMerkleTree SaplingMerkleTree mapCoins
       hashBlock hashSproutAnchor hashSaplingAnchor
       mapSproutAnchors mapSaplingAnchors mapSproutNullifiers mapSaplingNullifiers =
     (let (b1, m1) = BatchWriteCoins C [] mapCoins;
          (b2, m2) = BatchWriteAnchors SproutMerkleTree b1 mapSproutAnchors DB_SPROUT_ANCHOR;
          (b3, m3) = BatchWriteAnchors SaplingMerkleTree b2 mapSaplingAnchors DB_SAPLING_ANCHOR;
          (b4, m4) = BatchWriteNullifiers b3 mapSproutNullifiers DB_NULLIFIER;
          (b5, m5) = BatchWriteNullifiers b4 mapSaplingNullifiers DB_SAPLING_NULLIFIER
      in (BatchWriteBest b5 hashBlock hashSproutAnchor hashSaplingAnchor, m1, m2, m3, m4, m5))"

definition BatchWrite ::
  "('c, 'o) Coins \<Rightarrow> 's Tree \<Rightarrow> 'z Tree \<Rightarrow> bool \<Rightarrow> store \<Rightarrow> 'c CCoinsMap \<Rightarrow>
     uint256 \<Rightarrow> uint256 \<Rightarrow> uint256 \<Rightarrow>
     's CAnchorsMap \<Rightarrow> 'z CAnchorsMap \<Rightarrow> CNullifiersMap \<Rightarrow> CNullifiersMap \<Rightarrow>
     bool \<times> store \<times> 'c CCoinsMap \<times> 's CAnchorsMap \<times> 'z CAnchorsMap \<times> CNullifiersMap \<times> CNullifiersMap"
  where
  "BatchWrite C SproutMerkleTree SaplingMerkleTree committed db mapCoins
       hashBlock hashSproutAnchor hashSaplingAnchor
       mapSproutAnchors mapSaplingAnchors mapSproutNullifiers mapSaplingNullifiers =
     (let (batch, maps) = BatchWrite_build C SproutMerkleTree SaplingMerkleTree mapCoins
                            hashBlock hashSproutAnchor hashSaplingAnchor
                            mapSproutAnchors mapSaplingAnchors
                            mapSproutNullifiers mapSaplingNullifiers;
          (ok, db') = WriteBatch committed db batch
      in (ok, db', maps))"

section \<open>The block-tree database: CBlockTreeDB\<close>

text \<open>
  The point operations of the wrapper, \<open>Write(key, value)\<close> and \<open>Erase(key)\<close>: a batch of
  one operation handed to the engine.
\<close>

definition db_Write :: "bool \<Rightarrow> store \<Rightarrow> bytes \<Rightarrow> bytes \<Rightarrow> bool \<times> store" where
  "db_Write committed db k v = WriteBatch committed db [Write k v]"

definition db_Erase :: "bool \<Rightarrow> store \<Rightarrow> bytes \<Rightarrow> bool \<times> store" where
  "db_Erase committed db k = WriteBatch committed db [Erase k]"

text \<open>\<open>WriteReindexing\<close> and \<open>ReadReindexing\<close>; the latter gives the returned bool and the
  caller's \<open>fReindexing\<close> afterwards.\<close>

definition WriteReindexing :: "bool \<Rightarrow> store \<Rightarrow> bool \<Rightarrow> bool \<times> store" where
  "WriteReindexing committed db fReindexing =
     (if fReindexing then db_Write committed db [DB_REINDEX_FLAG] [CHR ''1'']
      else db_Erase committed db [DB_REINDEX_FLAG])"

definition ReadReindexing :: "store \<Rightarrow> bool \<times> bool" where
  "ReadReindexing db = (True, Exists db [DB_REINDEX_FLAG])"

subsection \<open>The range scans\<close>

text \<open>
  The index keys and values are declared outside txdb.cpp. The scans read \<open>hashBytes\<close> of
  both address keys, \<open>blockHeight\<close> (an int) of the address-index key, and \<open>timestamp\<close>
  (an unsigned int) and \<open>blockHash\<close> of the timestamp key; the other fields of a key live
  in the record's extension. Their serialization is a parameter of each scan: the encoder
  of the seek key, and the decoders of a stored key's payload and of a stored value, which
  give \<open>None\<close> where the stream operator throws.
\<close>

record CAddressUnspentKey =
  hashBytes :: uint160


record CTimestampIndexKey =
  timestamp :: "32 word"
  blockHash :: uint256

type_synonym CAmount = "64 word"

text \<open>
  A scan loop runs on what the iterator has left, entry by entry, and on the caller's
  output vector. \<open>ssKey >> chType\<close> takes the first byte of the key and throws on an empty
  key; \<open>ssKey >> indexKey\<close> decodes the rest. The outer handler leaves the loop, and the
  function returns true; the handler around the value returns \<open>error(...)\<close>, which is false.
\<close>

fun ReadAddressUnspentIndex_loop ::
  "(bytes \<Rightarrow> 'a CAddressUnspentKey_scheme option) \<Rightarrow> (bytes \<Rightarrow> 'v option) \<Rightarrow> uint160 \<Rightarrow>
     store \<Rightarrow> ('a CAddressUnspentKey_scheme \<times> 'v) list \<Rightarrow>
     bool \<times> ('a CAddressUnspentKey_scheme \<times> 'v) list" where
  "ReadAddressUnspentIndex_loop UnserializeKey UnserializeValue addressHash [] unspentOutputs =
     (True, unspentOutputs)"
| "ReadAddressUnspentIndex_loop UnserializeKey UnserializeValue addressHash
       ((slKey, slValue) # pcursor) unspentOutputs =
     (case slKey of
        [] \<Rightarrow> (True, unspentOutputs)
      | chType # ssKey \<Rightarrow>
          (case UnserializeKey ssKey of
             None \<Rightarrow> (True, unspentOutputs)
           | Some indexKey \<Rightarrow>
               if chType = DB_ADDRESSUNSPENTINDEX \<and> hashBytes indexKey = addressHash then
                 (case UnserializeValue slValue of
                    None \<Rightarrow> (False, unspentOutputs)
                  | Some nValue' \<Rightarrow>
                      ReadAddressUnspentIndex_loop UnserializeKey UnserializeValue addressHash
                        pcursor (unspentOutputs @ [(indexKey, nValue')]))
               else (True, unspentOutputs)))"

definition ReadAddressUnspentIndex ::
  "(int \<Rightarrow> uint160 \<Rightarrow> bytes) \<Rightarrow> (bytes \<Rightarrow> 'a CAddressUnspentKey_scheme option) \<Rightarrow>
     (bytes \<Rightarrow> 'v option) \<Rightarrow> store \<Rightarrow> uint160 \<Rightarrow> int \<Rightarrow>
     ('a CAddressUnspentKey_scheme \<times> 'v) list \<Rightarrow>
     bool \<times> ('a CAddressUnspentKey_scheme \<times> 'v) list" where
  "ReadAddressUnspentIndex CAddressIndexIteratorKey UnserializeKey UnserializeValue
       db addressHash type unspentOutputs =
     (let ssKeySet = DB_ADDRESSUNSPENTINDEX # CAddressIndexIteratorKey type addressHash
      in ReadAddressUnspentIndex_loop UnserializeKey UnserializeValue addressHash
           (Seek ssKeySet db) unspentOutputs)"



text \<open>
  \<open>blockOnchainActive\<close> looks the hash up in the global \<open>mapBlockIndex\<close> (a null pointer
  when the hash is not there) and asks the active chain whether it contains the node.
  That \<open>operator[]\<close> also inserts the missing hash into the global map is not modelled.
\<close>

definition blockOnchainActive ::
  "(uint256 \<Rightarrow> 'p option) \<Rightarrow> ('p option \<Rightarrow> bool) \<Rightarrow> uint256 \<Rightarrow> bool" where
  "blockOnchainActive mapBlockIndex Contains hash =
     (let pblockindex = mapBlockIndex hash in
      if \<not> Contains pblockindex then False else True)"

fun ReadTimestampIndex_loop ::
  "(bytes \<Rightarrow> CTimestampIndexKey option) \<Rightarrow> (uint256 \<Rightarrow> bool) \<Rightarrow> 32 word \<Rightarrow> bool \<Rightarrow>
     store \<Rightarrow> (uint256 \<times> 32 word) list \<Rightarrow> bool \<times> (uint256 \<times> 32 word) list" where
  "ReadTimestampIndex_loop UnserializeKey onchainActive high fActiveOnly [] hashes = (True, hashes)"
| "ReadTimestampIndex_loop UnserializeKey onchainActive high fActiveOnly
       ((slKey, slValue) # pcursor) hashes =
     (case slKey of
        [] \<Rightarrow> (True, hashes)
      | chType # ssKey \<Rightarrow>
          (case UnserializeKey ssKey of
             None \<Rightarrow> (True, hashes)
           | Some indexKey \<Rightarrow>
               if chType = DB_TIMESTAMPINDEX \<and> timestamp indexKey < high then
                 ReadTimestampIndex_loop UnserializeKey onchainActive high fActiveOnly pcursor
                   (if fActiveOnly then
                      (if onchainActive (blockHash indexKey)
                       then hashes @ [(blockHash indexKey, timestamp indexKey)] else hashes)
                    else hashes @ [(blockHash indexKey, timestamp indexKey)])
               else (True, hashes)))"

definition ReadTimestampIndex ::
  "(32 word \<Rightarrow> bytes) \<Rightarrow> (bytes \<Rightarrow> CTimestampIndexKey option) \<Rightarrow>
     (uint256 \<Rightarrow> 'p option) \<Rightarrow> ('p option \<Rightarrow> bool) \<Rightarrow> store \<Rightarrow>
     32 word \<Rightarrow> 32 word \<Rightarrow> bool \<Rightarrow> (uint256 \<times> 32 word) list \<Rightarrow>
     bool \<times> (uint256 \<times> 32 word) list" where
  "ReadTimestampIndex CTimestampIndexIteratorKey UnserializeKey mapBlockIndex Contains
       db high low fActiveOnly hashes =
     (let ssKeySet = DB_TIMESTAMPINDEX # CTimestampIndexIteratorKey low
      in ReadTimestampIndex_loop UnserializeKey (blockOnchainActive mapBlockIndex Contains)
           high fActiveOnly (Seek ssKeySet db) hashes)"

section \<open>The statistics scan: CCoinsViewDB::GetStats\<close>

text \<open>
  \<open>CCoinsStats\<close> is declared outside txdb.cpp; these are the fields \<open>GetStats\<close> writes.
  The counters are 64-bit unsigned, the amount is a 64-bit \<open>CAmount\<close>.
\<close>

record CCoinsStats =
  nHeight :: int
  hashBlock :: uint256
  nTransactions :: "64 word"
  nTransactionOutputs :: "64 word"
  nSerializedSize :: "64 word"
  hashSerialized :: uint256
  nTotalAmount :: CAmount

text \<open>The statistics a caller starts from: every counter zero, every hash null.\<close>

definition stats_zero :: CCoinsStats where
  "stats_zero = \<lparr>nHeight = 0, hashBlock = uint256_zero, nTransactions = 0,
     nTransactionOutputs = 0, nSerializedSize = 0, hashSerialized = uint256_zero,
     nTotalAmount = 0\<rparr>"

text \<open>For concrete instances: the statistics of a coin database with best block
  \<open>hash_of_byte 1\<close> at height 7 and one record whose first and third outputs, \<open>a\<close> and
  \<open>b\<close>, are not null, scanned with the identity as hash function.\<close>

definition stats_demo :: "64 word \<Rightarrow> CCoinsStats" where
  "stats_demo size_on_disk =
     \<lparr>nHeight = 7, hashBlock = hash_of_byte (CHR 0x01), nTransactions = 1,
      nTransactionOutputs = 2, nSerializedSize = size_on_disk,
      hashSerialized =
        hash_of_byte (CHR 0x01) @ [CHR 0x01, CHR ''a'', CHR 0x03, CHR ''b'', CHR 0x00],
      nTotalAmount = 2\<rparr>"

text \<open>
  The hash writer \<open>ss\<close> is the byte string written into it so far; \<open>ss.GetHash()\<close> is a
  parameter \<open>Hash\<close> applied to it. \<open>VARINT\<close> is the variable-length integer encoder,
  \<open>GetKey\<close> the iterator's decoder of a \<open>(char, uint256)\<close> key, and the coin record type
  decodes the value. The loop state is the statistics, the hash writer and
  \<open>nTotalAmount\<close>. The index \<open>i\<close> is an unsigned int; the number of outputs of a
  record is far below the \<open>2 ^ 32\<close> at which \<open>i + 1\<close> would wrap, so it is a natural
  number here.
\<close>

fun GetStats_vout ::
  "('c, 'o) Coins \<Rightarrow> (nat \<Rightarrow> bytes) \<Rightarrow> 'o list \<Rightarrow> nat \<Rightarrow>
     CCoinsStats \<times> bytes \<times> CAmount \<Rightarrow> CCoinsStats \<times> bytes \<times> CAmount" where
  "GetStats_vout C VARINT [] i (stats, ss, nTotal) = (stats, ss, nTotal)"
| "GetStats_vout C VARINT (out # outs) i (stats, ss, nTotal) =
     GetStats_vout C VARINT outs (i + 1)
       (if \<not> IsNullOut C out then
          (stats\<lparr>nTransactionOutputs := nTransactionOutputs stats + 1\<rparr>,
           ss @ VARINT (i + 1) @ SerializeOut C out,
           nTotal + nValue C out)
        else (stats, ss, nTotal))"

fun GetStats_loop ::
  "('c, 'o) Coins \<Rightarrow> (bytes \<Rightarrow> (char \<times> uint256) option) \<Rightarrow> (nat \<Rightarrow> bytes) \<Rightarrow> store \<Rightarrow>
     CCoinsStats \<times> bytes \<times> CAmount \<Rightarrow> bool \<times> CCoinsStats \<times> bytes \<times> CAmount" where
  "GetStats_loop C GetKey VARINT [] (stats, ss, nTotal) = (True, stats, ss, nTotal)"
| "GetStats_loop C GetKey VARINT ((slKey, slValue) # pcursor) (stats, ss, nTotal) =
     (case GetKey slKey of
        None \<Rightarrow> (True, stats, ss, nTotal)
      | Some key \<Rightarrow>
          if fst key = DB_COINS then
            (case UnserializeCoins C slValue of
               None \<Rightarrow> (False, stats, ss, nTotal)
             | Some coins' \<Rightarrow>
                 (case GetStats_vout C VARINT (vout C coins') 0
                         (stats\<lparr>nTransactions := nTransactions stats + 1\<rparr>, ss, nTotal) of
                    (stats1, ss1, nTotal1) \<Rightarrow>
                      GetStats_loop C GetKey VARINT pcursor
                        (stats1\<lparr>nSerializedSize :=
                            nSerializedSize stats1 + (32 + of_nat (length slValue))\<rparr>,
                         ss1 @ VARINT 0, nTotal1)))
          else (True, stats, ss, nTotal))"

text \<open>
  \<open>GetStats\<close>. \<open>mapBlockIndex\<close> is the global block index, seen through the height of
  its nodes. The code dereferences \<open>mapBlockIndex.find(stats.hashBlock)\<close> unchecked: when
  the best block is not in the index the behaviour is undefined, which is the result
  \<open>None\<close>. Otherwise the result is the returned bool and the caller's statistics
  afterwards.
\<close>

definition GetStats ::
  "('c, 'o) Coins \<Rightarrow> (bytes \<Rightarrow> (char \<times> uint256) option) \<Rightarrow> (nat \<Rightarrow> bytes) \<Rightarrow>
     (bytes \<Rightarrow> uint256) \<Rightarrow> (uint256 \<Rightarrow> int option) \<Rightarrow> store \<Rightarrow> CCoinsStats \<Rightarrow>
     (bool \<times> CCoinsStats) option" where
  "GetStats C GetKey VARINT Hash mapBlockIndex db stats =
     (let pcursor = Seek [DB_COINS] db;
          stats0 = stats\<lparr>hashBlock := GetBestBlock db\<rparr>
      in case GetStats_loop C GetKey VARINT pcursor (stats0, hashBlock stats0, 0) of
           (False, stats1, ss, nTotal) \<Rightarrow> Some (False, stats1)
         | (True, stats1, ss, nTotal) \<Rightarrow>
             (case mapBlockIndex (hashBlock stats1) of
                None \<Rightarrow> None
              | Some height \<Rightarrow>
                  Some (True, stats1\<lparr>nHeight := height, hashSerialized := Hash ss,
                                     nTotalAmount := nTotal\<rparr>)))"

text \<open>
  The summary hash in the specification's words. The non-null outputs of a record, each
  with its 1-based index; the bytes a record contributes (each non-null output preceded by
  its index as a varint, then varint 0); and the coin records the scan reaches: it goes on
  while the key decodes as a coin key and stops at the first value that does not decode.
\<close>

definition nonnull_outputs :: "('c, 'o) Coins \<Rightarrow> 'c \<Rightarrow> (nat \<times> 'o) list" where
  "nonnull_outputs C c = filter (\<lambda>(i, out). \<not> IsNullOut C out) (enumerate 1 (vout C c))"

definition record_stream :: "('c, 'o) Coins \<Rightarrow> (nat \<Rightarrow> bytes) \<Rightarrow> 'c \<Rightarrow> bytes" where
  "record_stream C VARINT c =
     concat (map (\<lambda>(i, out). VARINT i @ SerializeOut C out) (nonnull_outputs C c)) @ VARINT 0"

fun coin_records ::
  "('c, 'o) Coins \<Rightarrow> (bytes \<Rightarrow> (char \<times> uint256) option) \<Rightarrow> store \<Rightarrow> 'c list" where
  "coin_records C GetKey [] = []"
| "coin_records C GetKey ((slKey, slValue) # pcursor) =
     (case GetKey slKey of
        None \<Rightarrow> []
      | Some key \<Rightarrow>
          if fst key = DB_COINS then
            (case UnserializeCoins C slValue of
               None \<Rightarrow> []
             | Some c \<Rightarrow> c # coin_records C GetKey pcursor)
          else [])"

definition summary_stream ::
  "('c, 'o) Coins \<Rightarrow> (bytes \<Rightarrow> (char \<times> uint256) option) \<Rightarrow> (nat \<Rightarrow> bytes) \<Rightarrow> store \<Rightarrow> bytes" where
  "summary_stream C GetKey VARINT db =
     GetBestBlock db
       @ concat (map (record_stream C VARINT) (coin_records C GetKey (Seek [DB_COINS] db)))"

section \<open>The block index loader: CBlockTreeDB::LoadBlockIndexGuts\<close>

text \<open>
  \<open>CBlockIndex\<close> and \<open>CDiskBlockIndex\<close> (which derives from it and adds \<open>hashPrev\<close>)
  are declared outside txdb.cpp; the record has the fields the loader copies. A node of
  \<open>mapBlockIndex\<close> is identified by its key: a pointer to a node is the key, so
  \<open>GetBlockHash()\<close> of a node (the key its \<open>phashBlock\<close> points to) is the pointer
  itself, and \<open>pprev\<close> is the key of the predecessor's node or \<open>None\<close> for null.
\<close>

record CBlockIndex =
  pprev :: "uint256 option"
  nHeight :: int
  nFile :: int
  nDataPos :: "32 word"
  nUndoPos :: "32 word"
  hashSproutAnchor :: uint256
  nVersion :: "32 word"
  hashMerkleRoot :: uint256
  hashFinalSaplingRoot :: uint256
  nTime :: "32 word"
  nBits :: "32 word"
  nNonce :: uint256
  nSolution :: bytes
  nStatus :: "32 word"
  nCachedBranchId :: "32 word option"
  nTx :: "32 word"
  nSproutValue :: "CAmount option"

record CDiskBlockIndex = CBlockIndex +
  hashPrev :: uint256

type_synonym BlockMap = "uint256 \<Rightarrow> CBlockIndex option"

definition CBlockIndex_new :: CBlockIndex where
  "CBlockIndex_new =
     \<lparr>pprev = None, nHeight = 0, nFile = 0, nDataPos = 0, nUndoPos = 0,
      hashSproutAnchor = uint256_zero, nVersion = 0, hashMerkleRoot = uint256_zero,
      hashFinalSaplingRoot = uint256_zero, nTime = 0, nBits = 0, nNonce = uint256_zero,
      nSolution = [], nStatus = 0, nCachedBranchId = None, nTx = 0, nSproutValue = None\<rparr>"

text \<open>
  Modelled from the spec: \<open>InsertBlockIndex\<close> is not part of txdb.cpp. Section 4.5 of the
  specification: "look up or create the corresponding in-memory node by hash". It gives
  the map afterwards, the pointer to the node and the node it points to.
\<close>

definition InsertBlockIndex :: "BlockMap \<Rightarrow> uint256 \<Rightarrow> BlockMap \<times> uint256 \<times> CBlockIndex" where
  "InsertBlockIndex mapBlockIndex hash =
     (case mapBlockIndex hash of
        Some node \<Rightarrow> (mapBlockIndex, hash, node)
      | None \<Rightarrow> (mapBlockIndex(hash \<mapsto> CBlockIndex_new), hash, CBlockIndex_new))"

text \<open>The seventeen assignments to \<open>*pindexNew\<close>.\<close>

definition copy_fields ::
  "CBlockIndex \<Rightarrow> uint256 \<Rightarrow> 'a CDiskBlockIndex_scheme \<Rightarrow> CBlockIndex" where
  "copy_fields node pprev' diskindex =
     node\<lparr>pprev := Some pprev',
          nHeight := nHeight diskindex,
          nFile := nFile diskindex,
          nDataPos := nDataPos diskindex,
          nUndoPos := nUndoPos diskindex,
          hashSproutAnchor := hashSproutAnchor diskindex,
          nVersion := nVersion diskindex,
          hashMerkleRoot := hashMerkleRoot diskindex,
          hashFinalSaplingRoot := hashFinalSaplingRoot diskindex,
          nTime := nTime diskindex,
          nBits := nBits diskindex,
          nNonce := nNonce diskindex,
          nSolution := nSolution diskindex,
          nStatus := nStatus diskindex,
          nCachedBranchId := nCachedBranchId diskindex,
          nTx := nTx diskindex,
          nSproutValue := nSproutValue diskindex\<rparr>"

text \<open>
  One entry of the scan, once its value has decoded: the two insertions, the copy, and the
  map with the node written back. The result is the map, the pointer \<open>pindexNew\<close> and
  the node it points to.
\<close>

definition load_entry ::
  "(CDiskBlockIndex \<Rightarrow> uint256) \<Rightarrow> BlockMap \<Rightarrow> CDiskBlockIndex \<Rightarrow>
     BlockMap \<times> uint256 \<times> CBlockIndex" where
  "load_entry GetBlockHash mapBlockIndex diskindex =
     (case InsertBlockIndex mapBlockIndex (GetBlockHash diskindex) of
        (m1, pindexNew, node) \<Rightarrow>
          (case InsertBlockIndex m1 (hashPrev diskindex) of
             (m2, pprev', node_prev) \<Rightarrow>
               (let node' = copy_fields node pprev' diskindex
                in (m2(pindexNew \<mapsto> node'), pindexNew, node'))))"

text \<open>
  The loop. \<open>GetKey\<close> and \<open>GetValue\<close> are the iterator's decoders, \<open>GetBlockHash\<close> is
  \<open>diskindex.GetBlockHash()\<close>, and \<open>HeaderHash\<close> is \<open>GetBlockHeader().GetHash()\<close> of a
  node. The proof-of-work check stands under \<open>if ( 0 )\<close> and never runs.
\<close>

fun LoadBlockIndexGuts_loop ::
  "(bytes \<Rightarrow> (char \<times> uint256) option) \<Rightarrow> (bytes \<Rightarrow> CDiskBlockIndex option) \<Rightarrow>
     (CDiskBlockIndex \<Rightarrow> uint256) \<Rightarrow> (CBlockIndex \<Rightarrow> uint256) \<Rightarrow>
     store \<Rightarrow> BlockMap \<Rightarrow> bool \<times> BlockMap" where
  "LoadBlockIndexGuts_loop GetKey GetValue GetBlockHash HeaderHash [] mapBlockIndex =
     (True, mapBlockIndex)"
| "LoadBlockIndexGuts_loop GetKey GetValue GetBlockHash HeaderHash
       ((slKey, slValue) # pcursor) mapBlockIndex =
     (case GetKey slKey of
        None \<Rightarrow> (True, mapBlockIndex)
      | Some key \<Rightarrow>
          if fst key = DB_BLOCK_INDEX then
            (case GetValue slValue of
               None \<Rightarrow> (False, mapBlockIndex)
             | Some diskindex \<Rightarrow>
                 (case load_entry GetBlockHash mapBlockIndex diskindex of
                    (m, pindexNew, node) \<Rightarrow>
                      if HeaderHash node \<noteq> pindexNew then (False, m)
                      else LoadBlockIndexGuts_loop GetKey GetValue GetBlockHash HeaderHash
                             pcursor m))
          else (True, mapBlockIndex))"

definition LoadBlockIndexGuts ::
  "(bytes \<Rightarrow> (char \<times> uint256) option) \<Rightarrow> (bytes \<Rightarrow> CDiskBlockIndex option) \<Rightarrow>
     (CDiskBlockIndex \<Rightarrow> uint256) \<Rightarrow> (CBlockIndex \<Rightarrow> uint256) \<Rightarrow>
     store \<Rightarrow> BlockMap \<Rightarrow> bool \<times> BlockMap" where
  "LoadBlockIndexGuts GetKey GetValue GetBlockHash HeaderHash db mapBlockIndex =
     LoadBlockIndexGuts_loop GetKey GetValue GetBlockHash HeaderHash
       (Seek (DB_BLOCK_INDEX # uint256_zero) db) mapBlockIndex"

section \<open>Auxiliary definitions for the statements\<close>

text \<open>The key a batch operation acts on.\<close>

fun op_key :: "batch_op \<Rightarrow> bytes" where
  "op_key (Write k v) = k"
| "op_key (Erase k) = k"

text \<open>The operations the five loops of \<open>BatchWrite\<close> add, each loop run on an empty batch.\<close>

definition flush_loops ::
  "('c, 'o) Coins \<Rightarrow> 's Tree \<Rightarrow> 'z Tree \<Rightarrow> 'c CCoinsMap \<Rightarrow>
     's CAnchorsMap \<Rightarrow> 'z CAnchorsMap \<Rightarrow> CNullifiersMap \<Rightarrow> CNullifiersMap \<Rightarrow> CDBBatch" where
  "flush_loops C S Z mc msa mza msn mzn =
     fst (BatchWriteCoins C [] mc) @ fst (BatchWriteAnchors S [] msa DB_SPROUT_ANCHOR)
       @ fst (BatchWriteAnchors Z [] mza DB_SAPLING_ANCHOR)
       @ fst (BatchWriteNullifiers [] msn DB_NULLIFIER)
       @ fst (BatchWriteNullifiers [] mzn DB_SAPLING_NULLIFIER)"

text \<open>
  Concrete instances for evaluating the model: a tree type whose trees are their own
  serialization, a coin record type whose records are lists of byte-string outputs (the
  empty string is the null output; a record is stored as one byte per output, \<open>-\<close> for a
  null one), a one-byte stand-in for the varint encoder,
  and two coin databases that differ in a trailing null output.
\<close>

definition RawTree :: "bytes Tree" where
  "RawTree = \<lparr>empty_root = replicate 32 (CHR 0x07), new_tree = [], Serialize = (\<lambda>t. t),
     Unserialize = Some\<rparr>"

definition RawCoins :: "(bytes list, bytes) Coins" where
  "RawCoins = \<lparr>IsPruned = list_all (\<lambda>out. out = []), vout = (\<lambda>c. c),
     SerializeCoins = map (\<lambda>out. case out of [] \<Rightarrow> CHR ''-'' | b # _ \<Rightarrow> b),
     UnserializeCoins =
       (\<lambda>bs. if bs = [] then None else Some (map (\<lambda>b. if b = CHR ''-'' then [] else [b]) bs)),
     IsNullOut = (\<lambda>out. out = []), nValue = (\<lambda>out. of_nat (length out)),
     SerializeOut = (\<lambda>out. out)\<rparr>"

definition RawVARINT :: "nat \<Rightarrow> bytes" where
  "RawVARINT n = [char_of n]"

definition coins_demo :: store where
  "coins_demo =
     [([DB_BEST_BLOCK], hash_of_byte (CHR 0x01)), (DB_COINS # ''t'', ''a-b'')]"

definition coins_demo' :: store where
  "coins_demo' =
     [([DB_BEST_BLOCK], hash_of_byte (CHR 0x01)), (DB_COINS # ''t'', ''a-b-'')]"


definition RawAddressUnspentKey :: "bytes \<Rightarrow> CAddressUnspentKey option" where
  "RawAddressUnspentKey bs = (case bs of [a, n] \<Rightarrow> Some \<lparr>hashBytes = [a]\<rparr> | _ \<Rightarrow> None)"

definition RawTimestampIndexKey :: "bytes \<Rightarrow> CTimestampIndexKey option" where
  "RawTimestampIndexKey bs =
     (case bs of [t, b] \<Rightarrow> Some \<lparr>timestamp = of_nat (of_char t), blockHash = [b]\<rparr> | _ \<Rightarrow> None)"





text \<open>
  Concrete codecs for evaluating the loader: a key is its tag followed by the hash, a disk
  record is one byte of nonce, one byte of solution and one byte of previous hash; the
  record's hash is its nonce and the header hash recomputed from a node is its solution, so
  a record is consistent when the two bytes agree.
\<close>

definition RawGetKey :: "bytes \<Rightarrow> (char \<times> uint256) option" where
  "RawGetKey bs = (case bs of [] \<Rightarrow> None | c # h \<Rightarrow> Some (c, h))"

definition RawDiskBlockIndex :: "bytes \<Rightarrow> CDiskBlockIndex option" where
  "RawDiskBlockIndex bs =
     (case bs of
        [n, s, p] \<Rightarrow>
          Some \<lparr>pprev = None, nHeight = 1, nFile = 0, nDataPos = 0, nUndoPos = 0,
                hashSproutAnchor = uint256_zero, nVersion = 4, hashMerkleRoot = uint256_zero,
                hashFinalSaplingRoot = uint256_zero, nTime = 0, nBits = 0, nNonce = [n],
                nSolution = [s], nStatus = 0, nCachedBranchId = None, nTx = 1,
                nSproutValue = None, hashPrev = [p]\<rparr>
      | _ \<Rightarrow> None)"

definition RawDiskHash :: "CDiskBlockIndex \<Rightarrow> uint256" where
  "RawDiskHash diskindex = nNonce diskindex"

definition RawHeaderHash :: "CBlockIndex \<Rightarrow> uint256" where
  "RawHeaderHash node = nSolution node"

section \<open>Properties of the engine and of the flush\<close>

text \<open>The values of the tags, for the simplifier.\<close>

lemmas DB_tags =
  DB_SPROUT_ANCHOR_def DB_SAPLING_ANCHOR_def DB_NULLIFIER_def DB_SAPLING_NULLIFIER_def
  DB_COINS_def DB_BLOCK_FILES_def DB_TXINDEX_def DB_ADDRESSINDEX_def
  DB_ADDRESSUNSPENTINDEX_def DB_TIMESTAMPINDEX_def DB_BLOCKHASHINDEX_def DB_SPENTINDEX_def
  DB_BLOCK_INDEX_def DB_BEST_BLOCK_def DB_BEST_SPROUT_ANCHOR_def DB_BEST_SAPLING_ANCHOR_def
  DB_FLAG_def DB_REINDEX_FLAG_def DB_LAST_BLOCK_def

lemma db_get_put: "db_get (db_put k v db) k' = (if k' = k then Some v else db_get db k')"
  by (induction db) (auto simp: db_get_def)

lemma db_get_delete: "db_get (db_delete k db) k' = (if k' = k then None else db_get db k')"
  by (induction db) (auto simp: db_get_def)

lemma db_get_apply_other: "op_key x \<noteq> k \<Longrightarrow> db_get (apply_op db x) k = db_get db k"
  by (cases x) (simp_all add: db_get_put db_get_delete)

lemma db_get_batch_other:
  "k \<notin> op_key ` set batch \<Longrightarrow> db_get (foldl apply_op db batch) k = db_get db k"
  by (induction batch arbitrary: db) (auto simp: db_get_apply_other)

lemma db_get_batch_last_write:
  "k \<notin> op_key ` set after \<Longrightarrow>
   db_get (foldl apply_op db (before @ Write k v # after)) k = Some v"
  by (simp add: db_get_batch_other db_get_put)

lemma BatchWriteNullifiers_append:
  "fst (BatchWriteNullifiers batch m c) = batch @ fst (BatchWriteNullifiers [] m c)"
proof (induction m arbitrary: batch)
  case Nil
  then show ?case by simp
next
  case (Cons a m)
  obtain nf e where a: "a = (nf, e)" by (cases a)
  show ?case
    unfolding a BatchWriteNullifiers.simps
    by (subst Cons.IH, subst (2) Cons.IH) simp
qed

lemma BatchWriteAnchors_append:
  "fst (BatchWriteAnchors T batch m c) = batch @ fst (BatchWriteAnchors T [] m c)"
proof (induction m arbitrary: batch)
  case Nil
  then show ?case by simp
next
  case (Cons a m)
  obtain rt e where a: "a = (rt, e)" by (cases a)
  show ?case
    unfolding a BatchWriteAnchors.simps
    by (subst Cons.IH, subst (2) Cons.IH) simp
qed

lemma BatchWriteCoins_append:
  "fst (BatchWriteCoins C batch m) = batch @ fst (BatchWriteCoins C [] m)"
proof (induction m arbitrary: batch)
  case Nil
  then show ?case by simp
next
  case (Cons a m)
  obtain rt e where a: "a = (rt, e)" by (cases a)
  show ?case
    unfolding a BatchWriteCoins.simps
    by (subst Cons.IH, subst (2) Cons.IH) simp
qed

lemma BatchWriteNullifiers_drained: "snd (BatchWriteNullifiers batch m c) = []"
  by (induction m arbitrary: batch) auto

lemma BatchWriteAnchors_drained: "snd (BatchWriteAnchors T batch m c) = []"
  by (induction m arbitrary: batch) auto

lemma BatchWriteCoins_drained: "snd (BatchWriteCoins C batch m) = []"
  by (induction m arbitrary: batch) auto

lemma BatchWriteNullifiers_Cons:
  "fst (BatchWriteNullifiers [] ((nf, e) # m) c) =
     (if flags e AND DIRTY \<noteq> 0 then
        (if \<not> entered e then [Erase (c # nf)] else [Write (c # nf) (SerializeBool True)])
      else []) @ fst (BatchWriteNullifiers [] m c)"
  using BatchWriteNullifiers_append [of "[Erase (c # nf)]" m c]
    BatchWriteNullifiers_append [of "[Write (c # nf) (SerializeBool True)]" m c]
  by simp

lemma BatchWriteAnchors_Cons:
  "fst (BatchWriteAnchors T [] ((rt, e) # m) c) =
     (if flags e AND DIRTY \<noteq> 0 then
        (if \<not> entered e then [Erase (c # rt)]
         else if rt \<noteq> empty_root T then [Write (c # rt) (Serialize T (tree e))] else [])
      else []) @ fst (BatchWriteAnchors T [] m c)"
  using BatchWriteAnchors_append [of T "[Erase (c # rt)]" m c]
    BatchWriteAnchors_append [of T "[Write (c # rt) (Serialize T (tree e))]" m c]
  by simp

lemma BatchWriteCoins_Cons:
  "fst (BatchWriteCoins C [] ((txid, e) # m)) =
     (if flags e AND DIRTY \<noteq> 0 then
        (if IsPruned C (coins e) then [Erase (DB_COINS # txid)]
         else [Write (DB_COINS # txid) (SerializeCoins C (coins e))])
      else []) @ fst (BatchWriteCoins C [] m)"
  using BatchWriteCoins_append [of C "[Erase (DB_COINS # txid)]" m]
    BatchWriteCoins_append [of C "[Write (DB_COINS # txid) (SerializeCoins C (coins e))]" m]
  by simp

text \<open>The tag of every key a loop adds.\<close>

lemma BatchWriteNullifiers_keys:
  "x \<in> set (fst (BatchWriteNullifiers [] m c)) \<Longrightarrow> \<exists>k. op_key x = c # k"
proof (induction m)
  case Nil
  then show ?case by simp
next
  case (Cons a m)
  obtain nf e where a: "a = (nf, e)" by (cases a)
  from Cons.prems Cons.IH show ?case
    unfolding a by (simp only: BatchWriteNullifiers_Cons) (auto split: if_splits)
qed

lemma BatchWriteAnchors_keys:
  "x \<in> set (fst (BatchWriteAnchors T [] m c)) \<Longrightarrow> \<exists>k. op_key x = c # k"
proof (induction m)
  case Nil
  then show ?case by simp
next
  case (Cons a m)
  obtain nf e where a: "a = (nf, e)" by (cases a)
  from Cons.prems Cons.IH show ?case
    unfolding a by (simp only: BatchWriteAnchors_Cons) (auto split: if_splits)
qed

lemma BatchWriteCoins_keys:
  "x \<in> set (fst (BatchWriteCoins C [] m)) \<Longrightarrow> \<exists>k. op_key x = DB_COINS # k"
proof (induction m)
  case Nil
  then show ?case by simp
next
  case (Cons a m)
  obtain nf e where a: "a = (nf, e)" by (cases a)
  from Cons.prems Cons.IH show ?case
    unfolding a by (simp only: BatchWriteCoins_Cons) (auto split: if_splits)
qed

lemma BatchWriteAnchors_no_empty_root:
  "Write (c # empty_root T) v \<notin> set (fst (BatchWriteAnchors T [] m c))"
proof (induction m)
  case Nil
  then show ?case by simp
next
  case (Cons a m)
  obtain rt e where a: "a = (rt, e)" by (cases a)
  from Cons.IH show ?case
    unfolding a by (simp only: BatchWriteAnchors_Cons) (auto split: if_splits)
qed

lemma BatchWrite_build_batch:
  "fst (BatchWrite_build C S Z mc hb hs hz msa mza msn mzn) =
     BatchWriteBest (flush_loops C S Z mc msa mza msn mzn) hb hs hz"
proof -
  obtain b1 m1 where 1: "BatchWriteCoins C [] mc = (b1, m1)" by (cases "BatchWriteCoins C [] mc")
  obtain b2 m2 where 2: "BatchWriteAnchors S b1 msa DB_SPROUT_ANCHOR = (b2, m2)"
    by (cases "BatchWriteAnchors S b1 msa DB_SPROUT_ANCHOR")
  obtain b3 m3 where 3: "BatchWriteAnchors Z b2 mza DB_SAPLING_ANCHOR = (b3, m3)"
    by (cases "BatchWriteAnchors Z b2 mza DB_SAPLING_ANCHOR")
  obtain b4 m4 where 4: "BatchWriteNullifiers b3 msn DB_NULLIFIER = (b4, m4)"
    by (cases "BatchWriteNullifiers b3 msn DB_NULLIFIER")
  obtain b5 m5 where 5: "BatchWriteNullifiers b4 mzn DB_SAPLING_NULLIFIER = (b5, m5)"
    by (cases "BatchWriteNullifiers b4 mzn DB_SAPLING_NULLIFIER")
  have e2: "b2 = b1 @ fst (BatchWriteAnchors S [] msa DB_SPROUT_ANCHOR)"
    using BatchWriteAnchors_append [of S b1 msa DB_SPROUT_ANCHOR] 2 by simp
  have e3: "b3 = b2 @ fst (BatchWriteAnchors Z [] mza DB_SAPLING_ANCHOR)"
    using BatchWriteAnchors_append [of Z b2 mza DB_SAPLING_ANCHOR] 3 by simp
  have e4: "b4 = b3 @ fst (BatchWriteNullifiers [] msn DB_NULLIFIER)"
    using BatchWriteNullifiers_append [of b3 msn DB_NULLIFIER] 4 by simp
  have e5: "b5 = b4 @ fst (BatchWriteNullifiers [] mzn DB_SAPLING_NULLIFIER)"
    using BatchWriteNullifiers_append [of b4 mzn DB_SAPLING_NULLIFIER] 5 by simp
  have "fst (BatchWrite_build C S Z mc hb hs hz msa mza msn mzn) = BatchWriteBest b5 hb hs hz"
    by (simp add: BatchWrite_build_def 1 2 3 4 5)
  moreover have "b5 = flush_loops C S Z mc msa mza msn mzn"
    using 1 by (simp add: flush_loops_def e2 e3 e4 e5)
  ultimately show ?thesis by simp
qed

lemma BatchWrite_build_maps:
  "snd (BatchWrite_build C S Z mc hb hs hz msa mza msn mzn) = ([], [], [], [], [])"
proof -
  obtain b1 m1 where 1: "BatchWriteCoins C [] mc = (b1, m1)" by (cases "BatchWriteCoins C [] mc")
  obtain b2 m2 where 2: "BatchWriteAnchors S b1 msa DB_SPROUT_ANCHOR = (b2, m2)"
    by (cases "BatchWriteAnchors S b1 msa DB_SPROUT_ANCHOR")
  obtain b3 m3 where 3: "BatchWriteAnchors Z b2 mza DB_SAPLING_ANCHOR = (b3, m3)"
    by (cases "BatchWriteAnchors Z b2 mza DB_SAPLING_ANCHOR")
  obtain b4 m4 where 4: "BatchWriteNullifiers b3 msn DB_NULLIFIER = (b4, m4)"
    by (cases "BatchWriteNullifiers b3 msn DB_NULLIFIER")
  obtain b5 m5 where 5: "BatchWriteNullifiers b4 mzn DB_SAPLING_NULLIFIER = (b5, m5)"
    by (cases "BatchWriteNullifiers b4 mzn DB_SAPLING_NULLIFIER")
  have "m1 = []" using BatchWriteCoins_drained [of C "[]" mc] 1 by simp
  moreover have "m2 = []" using BatchWriteAnchors_drained [of S b1 msa DB_SPROUT_ANCHOR] 2 by simp
  moreover have "m3 = []" using BatchWriteAnchors_drained [of Z b2 mza DB_SAPLING_ANCHOR] 3 by simp
  moreover have "m4 = []" using BatchWriteNullifiers_drained [of b3 msn DB_NULLIFIER] 4 by simp
  moreover have "m5 = []"
    using BatchWriteNullifiers_drained [of b4 mzn DB_SAPLING_NULLIFIER] 5 by simp
  ultimately show ?thesis by (simp add: BatchWrite_build_def 1 2 3 4 5)
qed

lemma BatchWriteBest_set: "set b \<subseteq> set (BatchWriteBest b hb hs hz)"
  by (auto simp: BatchWriteBest_def Let_def)

lemma flush_loops_keys:
  "x \<in> set (flush_loops C S Z mc msa mza msn mzn) \<Longrightarrow>
   \<exists>c k. op_key x = c # k \<and>
     c \<in> {DB_COINS, DB_SPROUT_ANCHOR, DB_SAPLING_ANCHOR, DB_NULLIFIER, DB_SAPLING_NULLIFIER}"
  unfolding flush_loops_def set_append Un_iff
  using BatchWriteCoins_keys [of x C mc] BatchWriteAnchors_keys [of x S msa DB_SPROUT_ANCHOR]
    BatchWriteAnchors_keys [of x Z mza DB_SAPLING_ANCHOR]
    BatchWriteNullifiers_keys [of x msn DB_NULLIFIER]
    BatchWriteNullifiers_keys [of x mzn DB_SAPLING_NULLIFIER]
  by blast

lemma BatchWriteBest_append:
  "BatchWriteBest b hb hs hz =
     b @ (if \<not> IsNull hb then [Write [DB_BEST_BLOCK] hb] else [])
       @ (if \<not> IsNull hs then [Write [DB_BEST_SPROUT_ANCHOR] hs] else [])
       @ (if \<not> IsNull hz then [Write [DB_BEST_SAPLING_ANCHOR] hz] else [])"
  by (simp add: BatchWriteBest_def Let_def)

lemma db_get_batch_no_write:
  "\<forall>v. Write k v \<notin> set batch \<Longrightarrow> db_get db k = None \<Longrightarrow>
   db_get (foldl apply_op db batch) k = None"
proof (induction batch arbitrary: db)
  case Nil
  then show ?case by simp
next
  case (Cons x batch)
  have "db_get (apply_op db x) k = None"
    using Cons.prems by (cases x) (auto simp: db_get_put db_get_delete)
  with Cons show ?case by simp
qed

lemma BatchWrite_db:
  "fst (snd (BatchWrite C S Z committed db mc hb hs hz msa mza msn mzn)) =
     (if committed
      then foldl apply_op db (fst (BatchWrite_build C S Z mc hb hs hz msa mza msn mzn))
      else db)"
  by (simp add: BatchWrite_def WriteBatch_def split: prod.splits)

lemma BatchWrite_maps:
  "snd (snd (BatchWrite C S Z committed db mc hb hs hz msa mza msn mzn)) =
     snd (BatchWrite_build C S Z mc hb hs hz msa mza msn mzn)"
  by (simp add: BatchWrite_def WriteBatch_def split: prod.splits)

text \<open>
  Claim C3. After any call to \<open>BatchWrite\<close> the coin map, both anchor maps and both
  nullifier maps are empty: every visited entry is erased whether or not it added an
  operation to the batch, and whatever the engine answers to the commit (\<open>committed\<close> is
  arbitrary).
\<close>

theorem flush_drains_every_map:
  "snd (snd (BatchWrite C SproutMerkleTree SaplingMerkleTree committed db mapCoins
       hBlock hSprout hSapling
       mapSproutAnchors mapSaplingAnchors mapSproutNullifiers mapSaplingNullifiers)) =
     ([], [], [], [], [])"
  by (simp only: BatchWrite_maps BatchWrite_build_maps)

lemma flush_no_empty_sprout_root:
  "Write (DB_SPROUT_ANCHOR # empty_root S) v
     \<notin> set (fst (BatchWrite_build C S Z mc hb hs hz msa mza msn mzn))"
proof
  assume "Write (DB_SPROUT_ANCHOR # empty_root S) v
     \<in> set (fst (BatchWrite_build C S Z mc hb hs hz msa mza msn mzn))"
  then have "Write (DB_SPROUT_ANCHOR # empty_root S) v \<in> set (flush_loops C S Z mc msa mza msn mzn)"
    by (auto simp: BatchWrite_build_batch BatchWriteBest_append DB_tags split: if_splits)
  then show False
    unfolding flush_loops_def set_append Un_iff
    using BatchWriteCoins_keys [of "Write (DB_SPROUT_ANCHOR # empty_root S) v" C mc]
      BatchWriteAnchors_no_empty_root [of DB_SPROUT_ANCHOR S v msa]
      BatchWriteAnchors_keys [of "Write (DB_SPROUT_ANCHOR # empty_root S) v" Z mza DB_SAPLING_ANCHOR]
      BatchWriteNullifiers_keys [of "Write (DB_SPROUT_ANCHOR # empty_root S) v" msn DB_NULLIFIER]
      BatchWriteNullifiers_keys [of "Write (DB_SPROUT_ANCHOR # empty_root S) v" mzn DB_SAPLING_NULLIFIER]
    by (auto simp: DB_tags)
qed

lemma flush_no_empty_sapling_root:
  "Write (DB_SAPLING_ANCHOR # empty_root Z) v
     \<notin> set (fst (BatchWrite_build C S Z mc hb hs hz msa mza msn mzn))"
proof
  assume "Write (DB_SAPLING_ANCHOR # empty_root Z) v
     \<in> set (fst (BatchWrite_build C S Z mc hb hs hz msa mza msn mzn))"
  then have "Write (DB_SAPLING_ANCHOR # empty_root Z) v \<in> set (flush_loops C S Z mc msa mza msn mzn)"
    by (auto simp: BatchWrite_build_batch BatchWriteBest_append DB_tags split: if_splits)
  then show False
    unfolding flush_loops_def set_append Un_iff
    using BatchWriteCoins_keys [of "Write (DB_SAPLING_ANCHOR # empty_root Z) v" C mc]
      BatchWriteAnchors_no_empty_root [of DB_SAPLING_ANCHOR Z v mza]
      BatchWriteAnchors_keys [of "Write (DB_SAPLING_ANCHOR # empty_root Z) v" S msa DB_SPROUT_ANCHOR]
      BatchWriteNullifiers_keys [of "Write (DB_SAPLING_ANCHOR # empty_root Z) v" msn DB_NULLIFIER]
      BatchWriteNullifiers_keys [of "Write (DB_SAPLING_ANCHOR # empty_root Z) v" mzn DB_SAPLING_NULLIFIER]
    by (auto simp: DB_tags)
qed

text \<open>
  Claim C4. The batch of a flush holds no write under the Sprout tag for the Sprout empty
  root and none under the Sapling tag for the Sapling empty root, so a database without
  such an entry has none after the flush; and \<open>GetSproutAnchorAt\<close> and
  \<open>GetSaplingAnchorAt\<close> called with the empty root return true with the default-constructed
  tree and read no key from the database.
\<close>

theorem empty_root_never_persisted:
  "(\<forall>v. Write (DB_SPROUT_ANCHOR # empty_root SproutMerkleTree) v
       \<notin> set (fst (BatchWrite_build C SproutMerkleTree SaplingMerkleTree mapCoins
                  hBlock hSprout hSapling
                  mapSproutAnchors mapSaplingAnchors mapSproutNullifiers mapSaplingNullifiers)))
   \<and> (\<forall>v. Write (DB_SAPLING_ANCHOR # empty_root SaplingMerkleTree) v
       \<notin> set (fst (BatchWrite_build C SproutMerkleTree SaplingMerkleTree mapCoins
                  hBlock hSprout hSapling
                  mapSproutAnchors mapSaplingAnchors mapSproutNullifiers mapSaplingNullifiers)))
   \<and> (db_get db (DB_SPROUT_ANCHOR # empty_root SproutMerkleTree) = None \<longrightarrow>
        db_get (fst (snd (BatchWrite C SproutMerkleTree SaplingMerkleTree committed db mapCoins
                  hBlock hSprout hSapling
                  mapSproutAnchors mapSaplingAnchors mapSproutNullifiers mapSaplingNullifiers)))
          (DB_SPROUT_ANCHOR # empty_root SproutMerkleTree) = None)
   \<and> (db_get db (DB_SAPLING_ANCHOR # empty_root SaplingMerkleTree) = None \<longrightarrow>
        db_get (fst (snd (BatchWrite C SproutMerkleTree SaplingMerkleTree committed db mapCoins
                  hBlock hSprout hSapling
                  mapSproutAnchors mapSaplingAnchors mapSproutNullifiers mapSaplingNullifiers)))
          (DB_SAPLING_ANCHOR # empty_root SaplingMerkleTree) = None)
   \<and> GetSproutAnchorAt SproutMerkleTree db (empty_root SproutMerkleTree) sprout_tree
        = (True, new_tree SproutMerkleTree, [])
   \<and> GetSaplingAnchorAt SaplingMerkleTree db (empty_root SaplingMerkleTree) sapling_tree
        = (True, new_tree SaplingMerkleTree, [])"
  by (simp add: flush_no_empty_sprout_root flush_no_empty_sapling_root BatchWrite_db
      db_get_batch_no_write GetSproutAnchorAt_def GetSaplingAnchorAt_def)

text \<open>
  Claim C4 at a concrete flush: a dirty, entered Sprout anchor under the empty root, flushed
  into an empty database with a successful commit.
\<close>

theorem empty_root_never_persisted_witness:
  "db_get [] (DB_SPROUT_ANCHOR # empty_root RawTree) = None
   \<and> db_get (fst (snd (BatchWrite RawCoins RawTree RawTree True [] []
          uint256_zero uint256_zero uint256_zero
          [(empty_root RawTree, \<lparr>flags = DIRTY, entered = True, tree = ''tree''\<rparr>)] [] [] [])))
        (DB_SPROUT_ANCHOR # empty_root RawTree) = None"
  using empty_root_never_persisted [where db = "[]" and SproutMerkleTree = RawTree
      and SaplingMerkleTree = RawTree and C = RawCoins and committed = True and mapCoins = "[]"
      and hBlock = uint256_zero and hSprout = uint256_zero
      and hSapling = uint256_zero
      and mapSproutAnchors = "[(empty_root RawTree, \<lparr>flags = DIRTY, entered = True, tree = ''tree''\<rparr>)]"
      and mapSaplingAnchors = "[]" and mapSproutNullifiers = "[]" and mapSaplingNullifiers = "[]"]
  by (simp add: db_get_def)

lemma flush_loops_not_slot:
  "c \<in> {DB_BEST_BLOCK, DB_BEST_SPROUT_ANCHOR, DB_BEST_SAPLING_ANCHOR} \<Longrightarrow>
   [c] \<notin> op_key ` set (flush_loops C S Z mc msa mza msn mzn)"
proof
  assume c: "c \<in> {DB_BEST_BLOCK, DB_BEST_SPROUT_ANCHOR, DB_BEST_SAPLING_ANCHOR}"
    and "[c] \<in> op_key ` set (flush_loops C S Z mc msa mza msn mzn)"
  then obtain x where x: "x \<in> set (flush_loops C S Z mc msa mza msn mzn)" "op_key x = [c]"
    by auto
  from flush_loops_keys [OF x(1)] x(2) c show False
    by (auto simp: DB_tags)
qed

text \<open>
  Claim C5. For each of the three scalar slots (best block, best Sprout anchor, best Sapling
  anchor): when the hash handed to \<open>BatchWrite\<close> is null the batch holds no operation on
  the slot's key and the slot's persisted content is what it was; when the hash is not null
  the batch holds the write of that hash, and after a commit the slot holds it.
\<close>

theorem best_slots_written_only_when_not_null:
  assumes "batch = fst (BatchWrite_build C SproutMerkleTree SaplingMerkleTree mapCoins
       hBlock hSprout hSapling
       mapSproutAnchors mapSaplingAnchors mapSproutNullifiers mapSaplingNullifiers)"
    and "db' = fst (snd (BatchWrite C SproutMerkleTree SaplingMerkleTree committed db mapCoins
       hBlock hSprout hSapling
       mapSproutAnchors mapSaplingAnchors mapSproutNullifiers mapSaplingNullifiers))"
  shows
  "(IsNull hBlock \<longrightarrow>
      [DB_BEST_BLOCK] \<notin> op_key ` set batch
      \<and> db_get db' [DB_BEST_BLOCK] = db_get db [DB_BEST_BLOCK])
   \<and> (\<not> IsNull hBlock \<longrightarrow>
      Write [DB_BEST_BLOCK] hBlock \<in> set batch
      \<and> (committed \<longrightarrow> db_get db' [DB_BEST_BLOCK] = Some hBlock))
   \<and> (IsNull hSprout \<longrightarrow>
      [DB_BEST_SPROUT_ANCHOR] \<notin> op_key ` set batch
      \<and> db_get db' [DB_BEST_SPROUT_ANCHOR] = db_get db [DB_BEST_SPROUT_ANCHOR])
   \<and> (\<not> IsNull hSprout \<longrightarrow>
      Write [DB_BEST_SPROUT_ANCHOR] hSprout \<in> set batch
      \<and> (committed \<longrightarrow> db_get db' [DB_BEST_SPROUT_ANCHOR] = Some hSprout))
   \<and> (IsNull hSapling \<longrightarrow>
      [DB_BEST_SAPLING_ANCHOR] \<notin> op_key ` set batch
      \<and> db_get db' [DB_BEST_SAPLING_ANCHOR] = db_get db [DB_BEST_SAPLING_ANCHOR])
   \<and> (\<not> IsNull hSapling \<longrightarrow>
      Write [DB_BEST_SAPLING_ANCHOR] hSapling \<in> set batch
      \<and> (committed \<longrightarrow> db_get db' [DB_BEST_SAPLING_ANCHOR] = Some hSapling))"
proof -
  define L where "L = flush_loops C SproutMerkleTree SaplingMerkleTree mapCoins
       mapSproutAnchors mapSaplingAnchors mapSproutNullifiers mapSaplingNullifiers"
  define X where "X = (if \<not> IsNull hBlock then [Write [DB_BEST_BLOCK] hBlock] else [])"
  define Y where "Y = (if \<not> IsNull hSprout
                       then [Write [DB_BEST_SPROUT_ANCHOR] hSprout] else [])"
  define Z where "Z = (if \<not> IsNull hSapling
                       then [Write [DB_BEST_SAPLING_ANCHOR] hSapling] else [])"
  have batch: "batch = L @ X @ Y @ Z"
    by (simp add: assms(1) BatchWrite_build_batch BatchWriteBest_append L_def X_def Y_def Z_def)
  have db': "db' = (if committed then foldl apply_op db batch else db)"
    by (simp add: assms BatchWrite_db)
  have LB: "[DB_BEST_BLOCK] \<notin> op_key ` set L"
    and LS: "[DB_BEST_SPROUT_ANCHOR] \<notin> op_key ` set L"
    and LZ: "[DB_BEST_SAPLING_ANCHOR] \<notin> op_key ` set L"
    unfolding L_def by (rule flush_loops_not_slot, simp)+
  have XS: "[DB_BEST_SPROUT_ANCHOR] \<notin> op_key ` set X"
    and XZ: "[DB_BEST_SAPLING_ANCHOR] \<notin> op_key ` set X"
    and YB: "[DB_BEST_BLOCK] \<notin> op_key ` set Y"
    and YZ: "[DB_BEST_SAPLING_ANCHOR] \<notin> op_key ` set Y"
    and ZB: "[DB_BEST_BLOCK] \<notin> op_key ` set Z"
    and ZS: "[DB_BEST_SPROUT_ANCHOR] \<notin> op_key ` set Z"
    by (auto simp: X_def Y_def Z_def DB_tags)
  have B0: "IsNull hBlock \<Longrightarrow> [DB_BEST_BLOCK] \<notin> op_key ` set batch"
    using LB YB ZB by (simp add: batch X_def image_Un)
  have S0: "IsNull hSprout \<Longrightarrow> [DB_BEST_SPROUT_ANCHOR] \<notin> op_key ` set batch"
    using LS XS ZS by (simp add: batch Y_def image_Un)
  have Z0: "IsNull hSapling \<Longrightarrow> [DB_BEST_SAPLING_ANCHOR] \<notin> op_key ` set batch"
    using LZ XZ YZ by (simp add: batch Z_def image_Un)
  have B1: "\<not> IsNull hBlock \<Longrightarrow> batch = L @ Write [DB_BEST_BLOCK] hBlock # (Y @ Z)"
    by (simp add: batch X_def)
  have S1: "\<not> IsNull hSprout \<Longrightarrow>
      batch = (L @ X) @ Write [DB_BEST_SPROUT_ANCHOR] hSprout # Z"
    by (simp add: batch Y_def)
  have Z1: "\<not> IsNull hSapling \<Longrightarrow>
      batch = (L @ X @ Y) @ Write [DB_BEST_SAPLING_ANCHOR] hSapling # []"
    by (simp add: batch Z_def)
  have B2: "\<not> IsNull hBlock \<Longrightarrow>
      db_get (foldl apply_op db batch) [DB_BEST_BLOCK] = Some hBlock"
    using db_get_batch_last_write [of "[DB_BEST_BLOCK]" "Y @ Z" db L hBlock] YB ZB B1
    by (simp add: image_Un)
  have S2: "\<not> IsNull hSprout \<Longrightarrow>
      db_get (foldl apply_op db batch) [DB_BEST_SPROUT_ANCHOR] = Some hSprout"
    using db_get_batch_last_write [of "[DB_BEST_SPROUT_ANCHOR]" Z db "L @ X" hSprout] ZS S1
    by simp
  have Z2: "\<not> IsNull hSapling \<Longrightarrow>
      db_get (foldl apply_op db batch) [DB_BEST_SAPLING_ANCHOR] = Some hSapling"
    using db_get_batch_last_write [of "[DB_BEST_SAPLING_ANCHOR]" "[]" db "L @ X @ Y" hSapling] Z1
    by simp
  have B3: "IsNull hBlock \<Longrightarrow> db_get db' [DB_BEST_BLOCK] = db_get db [DB_BEST_BLOCK]"
    using B0 by (simp add: db' db_get_batch_other)
  have S3: "IsNull hSprout \<Longrightarrow>
      db_get db' [DB_BEST_SPROUT_ANCHOR] = db_get db [DB_BEST_SPROUT_ANCHOR]"
    using S0 by (simp add: db' db_get_batch_other)
  have Z3: "IsNull hSapling \<Longrightarrow>
      db_get db' [DB_BEST_SAPLING_ANCHOR] = db_get db [DB_BEST_SAPLING_ANCHOR]"
    using Z0 by (simp add: db' db_get_batch_other)
  have B4: "\<not> IsNull hBlock \<Longrightarrow> Write [DB_BEST_BLOCK] hBlock \<in> set batch"
    by (simp add: batch X_def)
  have S4: "\<not> IsNull hSprout \<Longrightarrow>
      Write [DB_BEST_SPROUT_ANCHOR] hSprout \<in> set batch"
    by (simp add: batch Y_def)
  have Z4: "\<not> IsNull hSapling \<Longrightarrow>
      Write [DB_BEST_SAPLING_ANCHOR] hSapling \<in> set batch"
    by (simp add: batch Z_def)
  show ?thesis
    using B0 B2 B3 B4 S0 S2 S3 S4 Z0 Z2 Z3 Z4 by (simp add: db')
qed

lemma IsNull_uint256_zero: "IsNull uint256_zero"
  by (simp add: IsNull_def uint256_zero_def list_all_iff)

lemma IsNull_hash_of_byte: "IsNull (hash_of_byte c) = (c = CHR 0x00)"
  by (simp add: IsNull_def hash_of_byte_def list_all_iff)

text \<open>
  Claim C5 at a concrete flush: the best block is persisted, the flush brings a null best
  block and a non-null best Sprout anchor, and the commit succeeds.
\<close>

theorem best_slots_written_only_when_not_null_witness:
  "IsNull uint256_zero \<and> \<not> IsNull (hash_of_byte (CHR 0x02))
   \<and> db_get (fst (snd (BatchWrite RawCoins RawTree RawTree True
          [([DB_BEST_BLOCK], hash_of_byte (CHR 0x01))] []
          uint256_zero (hash_of_byte (CHR 0x02)) uint256_zero [] [] [] []))) [DB_BEST_BLOCK]
       = Some (hash_of_byte (CHR 0x01))
   \<and> db_get (fst (snd (BatchWrite RawCoins RawTree RawTree True
          [([DB_BEST_BLOCK], hash_of_byte (CHR 0x01))] []
          uint256_zero (hash_of_byte (CHR 0x02)) uint256_zero [] [] [] []))) [DB_BEST_SPROUT_ANCHOR]
       = Some (hash_of_byte (CHR 0x02))"
  using best_slots_written_only_when_not_null [OF refl refl,
      where C = RawCoins and SproutMerkleTree = RawTree and SaplingMerkleTree = RawTree
      and committed = True and db = "[([DB_BEST_BLOCK], hash_of_byte (CHR 0x01))]"
      and mapCoins = "[]" and hBlock = uint256_zero
      and hSprout = "hash_of_byte (CHR 0x02)" and hSapling = uint256_zero
      and mapSproutAnchors = "[]" and mapSaplingAnchors = "[]"
      and mapSproutNullifiers = "[]" and mapSaplingNullifiers = "[]"]
  by (simp add: IsNull_uint256_zero IsNull_hash_of_byte db_get_def)

lemma BatchWriteNullifiers_exact:
  "fst (BatchWriteNullifiers [] m c) =
     concat (map (\<lambda>(nf, e).
        if flags e AND DIRTY \<noteq> 0 then
          (if \<not> entered e then [Erase (c # nf)] else [Write (c # nf) (SerializeBool True)])
        else []) m)"
proof (induction m)
  case Nil
  then show ?case by simp
next
  case (Cons a m)
  obtain nf e where a: "a = (nf, e)" by (cases a)
  show ?case unfolding a by (simp only: BatchWriteNullifiers_Cons Cons.IH) simp
qed

lemma BatchWriteAnchors_exact:
  "fst (BatchWriteAnchors T [] m c) =
     concat (map (\<lambda>(rt, e).
        if flags e AND DIRTY \<noteq> 0 then
          (if \<not> entered e then [Erase (c # rt)]
           else if rt \<noteq> empty_root T then [Write (c # rt) (Serialize T (tree e))] else [])
        else []) m)"
proof (induction m)
  case Nil
  then show ?case by simp
next
  case (Cons a m)
  obtain rt e where a: "a = (rt, e)" by (cases a)
  show ?case unfolding a by (simp only: BatchWriteAnchors_Cons Cons.IH) simp
qed

lemma BatchWriteCoins_exact:
  "fst (BatchWriteCoins C [] m) =
     concat (map (\<lambda>(txid, e).
        if flags e AND DIRTY \<noteq> 0 then
          (if IsPruned C (coins e) then [Erase (DB_COINS # txid)]
           else [Write (DB_COINS # txid) (SerializeCoins C (coins e))])
        else []) m)"
proof (induction m)
  case Nil
  then show ?case by simp
next
  case (Cons a m)
  obtain txid e where a: "a = (txid, e)" by (cases a)
  show ?case unfolding a by (simp only: BatchWriteCoins_Cons Cons.IH) simp
qed

text \<open>
  Claim C2, as amended. The batch \<open>BatchWrite\<close> builds is exactly the translation of
  its entries, one after the other in the order the maps are traversed, followed by the
  best-slot writes: an entry that is not dirty adds nothing; a dirty coin entry (which has no
  \<open>entered\<close> field) adds the deletion of its key when its coins are pruned and the upsert
  of its coins otherwise; a dirty anchor entry adds the deletion of its key when
  \<open>entered\<close> is false, the upsert of its tree when \<open>entered\<close> is true and its key is
  not the empty root of its tree type, and nothing when \<open>entered\<close> is true and its key is
  that empty root; a dirty nullifier entry adds the deletion of its key when \<open>entered\<close>
  is false and the upsert of the marker true otherwise. The batch is built from the maps
  alone, so the persisted value plays no part.
\<close>

theorem flush_batch_is_the_translation_of_its_entries:
  "fst (BatchWrite_build C SproutMerkleTree SaplingMerkleTree mapCoins hBlock hSprout hSapling
          mapSproutAnchors mapSaplingAnchors mapSproutNullifiers mapSaplingNullifiers) =
     concat (map (\<lambda>(txid, e).
        if flags e AND DIRTY \<noteq> 0 then
          (if IsPruned C (coins e) then [Erase (DB_COINS # txid)]
           else [Write (DB_COINS # txid) (SerializeCoins C (coins e))])
        else []) mapCoins)
     @ concat (map (\<lambda>(rt, e).
        if flags e AND DIRTY \<noteq> 0 then
          (if \<not> entered e then [Erase (DB_SPROUT_ANCHOR # rt)]
           else if rt \<noteq> empty_root SproutMerkleTree
             then [Write (DB_SPROUT_ANCHOR # rt) (Serialize SproutMerkleTree (tree e))]
             else [])
        else []) mapSproutAnchors)
     @ concat (map (\<lambda>(rt, e).
        if flags e AND DIRTY \<noteq> 0 then
          (if \<not> entered e then [Erase (DB_SAPLING_ANCHOR # rt)]
           else if rt \<noteq> empty_root SaplingMerkleTree
             then [Write (DB_SAPLING_ANCHOR # rt) (Serialize SaplingMerkleTree (tree e))]
             else [])
        else []) mapSaplingAnchors)
     @ concat (map (\<lambda>(nf, e).
        if flags e AND DIRTY \<noteq> 0 then
          (if \<not> entered e then [Erase (DB_NULLIFIER # nf)]
           else [Write (DB_NULLIFIER # nf) (SerializeBool True)])
        else []) mapSproutNullifiers)
     @ concat (map (\<lambda>(nf, e).
        if flags e AND DIRTY \<noteq> 0 then
          (if \<not> entered e then [Erase (DB_SAPLING_NULLIFIER # nf)]
           else [Write (DB_SAPLING_NULLIFIER # nf) (SerializeBool True)])
        else []) mapSaplingNullifiers)
     @ (if \<not> IsNull hBlock then [Write [DB_BEST_BLOCK] hBlock] else [])
     @ (if \<not> IsNull hSprout then [Write [DB_BEST_SPROUT_ANCHOR] hSprout] else [])
     @ (if \<not> IsNull hSapling then [Write [DB_BEST_SAPLING_ANCHOR] hSapling] else [])"
  by (simp only: BatchWrite_build_batch BatchWriteBest_append flush_loops_def
      BatchWriteCoins_exact BatchWriteAnchors_exact BatchWriteNullifiers_exact append_assoc)

text \<open>
  Claim C2 (amended) at a concrete flush: a dirty coin entry, a dirty pruned coin entry, a
  coin entry that is not dirty, a dirty entered anchor, a dirty entered anchor under the
  empty root, a dirty nullifier with \<open>entered\<close> false and a dirty entered nullifier.
\<close>

theorem flush_batch_is_the_translation_of_its_entries_witness:
  "fst (BatchWrite_build RawCoins RawTree RawTree
          [(hash_of_byte (CHR 0x04), \<lparr>flags = DIRTY, coins = [''out'']\<rparr>),
           (hash_of_byte (CHR 0x06), \<lparr>flags = DIRTY, coins = [[]]\<rparr>),
           (hash_of_byte (CHR 0x07), \<lparr>flags = 0, coins = [''out'']\<rparr>)]
          uint256_zero uint256_zero uint256_zero
          [(hash_of_byte (CHR 0x05), \<lparr>flags = DIRTY, entered = True, tree = ''tree''\<rparr>),
           (empty_root RawTree, \<lparr>flags = DIRTY, entered = True, tree = ''tree''\<rparr>)] []
          [(hash_of_byte (CHR 0x03), \<lparr>flags = DIRTY, entered = False\<rparr>),
           (hash_of_byte (CHR 0x08), \<lparr>flags = DIRTY, entered = True\<rparr>)] [])
   = [Write (DB_COINS # hash_of_byte (CHR 0x04)) (SerializeCoins RawCoins [''out'']),
      Erase (DB_COINS # hash_of_byte (CHR 0x06)),
      Write (DB_SPROUT_ANCHOR # hash_of_byte (CHR 0x05)) ''tree'',
      Erase (DB_NULLIFIER # hash_of_byte (CHR 0x03)),
      Write (DB_NULLIFIER # hash_of_byte (CHR 0x08)) (SerializeBool True)]"
proof -
  have d: "DIRTY AND DIRTY \<noteq> 0" by (simp add: DIRTY_def)
  have p: "\<not> IsPruned RawCoins [''out'']" "IsPruned RawCoins [[]]" by (simp_all add: RawCoins_def)
  have r: "hash_of_byte (CHR 0x05) \<noteq> empty_root RawTree"
    by (simp add: hash_of_byte_def RawTree_def)
  have s: "Serialize RawTree ''tree'' = ''tree''" by (simp add: RawTree_def)
  show ?thesis
    by (simp only: flush_batch_is_the_translation_of_its_entries)
      (simp add: d p r s IsNull_uint256_zero DIRTY_def)
qed

text \<open>
  Claim C2 as stated fails: a dirty Sprout anchor entry with \<open>entered\<close> true whose key is
  the empty root is flushed into an empty batch, not into an upsert.
\<close>

theorem flush_skips_dirty_entered_empty_root:
  "flags \<lparr>flags = DIRTY, entered = True, tree = ''tree''\<rparr> AND DIRTY \<noteq> 0
   \<and> entered \<lparr>flags = DIRTY, entered = True, tree = ''tree''\<rparr>
   \<and> fst (BatchWrite_build RawCoins RawTree RawTree [] uint256_zero uint256_zero uint256_zero
          [(empty_root RawTree, \<lparr>flags = DIRTY, entered = True, tree = ''tree''\<rparr>)] [] [] []) = []"
  by (simp add: BatchWrite_build_def BatchWriteBest_def IsNull_uint256_zero DIRTY_def)

section \<open>The key tags\<close>

text \<open>
  Claim C1 as stated fails: the Sapling nullifier key and the timestamp index key are
  distinct key types with the same tag \<open>S\<close>, and so are the best Sapling anchor slot and
  the block-hash index key with the tag \<open>z\<close>.
\<close>

theorem distinct_key_types_share_a_tag:
  "SAPLING_NULLIFIER \<noteq> TIMESTAMPINDEX
   \<and> type_tag SAPLING_NULLIFIER = type_tag TIMESTAMPINDEX
   \<and> BEST_SAPLING_ANCHOR \<noteq> BLOCKHASHINDEX
   \<and> type_tag BEST_SAPLING_ANCHOR = type_tag BLOCKHASHINDEX"
  by (simp add: DB_tags)

lemma type_tag_inj_within_database:
  "database_of t1 = database_of t2 \<Longrightarrow> type_tag t1 = type_tag t2 \<Longrightarrow> t1 = t2"
  by (cases t1; cases t2; simp add: DB_tags)

text \<open>
  Claim C1, as amended. Within each of the two databases (the coin database of
  \<open>CCoinsViewDB\<close> and the block-tree database of \<open>CBlockTreeDB\<close>) no two key types share
  a tag, so two keys of one database with the same encoding have the same type and the same
  serialized payload.
\<close>

theorem encode_injective_within_database:
  "database_of t1 = database_of t2 \<Longrightarrow> encode t1 p1 = encode t2 p2 \<Longrightarrow> t1 = t2 \<and> p1 = p2"
  using type_tag_inj_within_database [of t1 t2] by (simp add: encode_def)

text \<open>
  Claim C1 (amended) at the two nullifier key types of the coin database, with one payload.
\<close>

theorem encode_injective_within_database_witness:
  "database_of NULLIFIER = database_of SAPLING_NULLIFIER
   \<and> encode NULLIFIER (hash_of_byte (CHR 0x01)) \<noteq> encode SAPLING_NULLIFIER (hash_of_byte (CHR 0x01))"
  using encode_injective_within_database [of NULLIFIER SAPLING_NULLIFIER
      "hash_of_byte (CHR 0x01)" "hash_of_byte (CHR 0x01)"]
  by auto

section \<open>The reindex flag\<close>

lemma Exists_put: "Exists (db_put k v db) k"
  by (simp add: Exists_def db_get_put)

text \<open>
  Claim C10. \<open>ReadReindexing\<close> returns true for every store and reports whether the
  reindex key is present. A \<open>WriteReindexing\<close> whose write the engine commits returns
  true; for false it leaves no entry under the key, for true it leaves the marker \<open>1\<close>;
  and \<open>ReadReindexing\<close> on the store it leaves reports the flag that was written.
\<close>

theorem reindex_flag_roundtrip:
  "ReadReindexing db = (True, Exists db [DB_REINDEX_FLAG])
   \<and> fst (WriteReindexing True db b) = True
   \<and> db_get (snd (WriteReindexing True db False)) [DB_REINDEX_FLAG] = None
   \<and> db_get (snd (WriteReindexing True db True)) [DB_REINDEX_FLAG] = Some [CHR ''1'']
   \<and> ReadReindexing (snd (WriteReindexing True db b)) = (True, b)"
  by (simp add: ReadReindexing_def WriteReindexing_def db_Write_def db_Erase_def
      WriteBatch_def Exists_def db_get_put db_get_delete)

text \<open>
  Claim C10 at the empty store and at a store that holds the flag, for both values of the
  flag.
\<close>

theorem reindex_flag_roundtrip_witness:
  "ReadReindexing (snd (WriteReindexing True [] True)) = (True, True)
   \<and> ReadReindexing (snd (WriteReindexing True [([DB_REINDEX_FLAG], ''1'')] False)) = (True, False)
   \<and> ReadReindexing (snd (WriteReindexing True [([DB_REINDEX_FLAG], ''1'')] True)) = (True, True)
   \<and> ReadReindexing (snd (WriteReindexing True [] False)) = (True, False)"
  using reindex_flag_roundtrip [where db = "[]" and b = True]
    reindex_flag_roundtrip [where db = "[([DB_REINDEX_FLAG], ''1'')]" and b = False]
    reindex_flag_roundtrip [where db = "[([DB_REINDEX_FLAG], ''1'')]" and b = True]
    reindex_flag_roundtrip [where db = "[]" and b = False]
  by blast

section \<open>The range scans\<close>



















section \<open>The block index loader\<close>

lemma load_entry_result:
  assumes "load_entry GetBlockHash mapBlockIndex diskindex = (m, pindexNew, node)"
  shows "pindexNew = GetBlockHash diskindex" and "m pindexNew = Some node"
    and "\<exists>old. node = copy_fields old (hashPrev diskindex) diskindex"
  using assms
  by (auto simp: load_entry_def InsertBlockIndex_def Let_def split: option.splits prod.splits)

text \<open>
  Claim C9. At any point of the load, for an entry under the block-index tag: when its value
  does not decode the load returns false at once, with the map as it is; when it decodes,
  the node found or created under the record's hash receives the record's fields, the
  header hash is recomputed from that node and compared with the key of the node, and on a
  mismatch the load returns false at once, whatever entries follow; only on a match does
  the load go on with the next entry.
\<close>

theorem load_stops_at_first_failure:
  "(GetKey slKey = Some key \<and> fst key = DB_BLOCK_INDEX \<and> GetValue slValue = None \<longrightarrow>
      LoadBlockIndexGuts_loop GetKey GetValue GetBlockHash HeaderHash
          ((slKey, slValue) # rest) mapBlockIndex = (False, mapBlockIndex))
   \<and> (GetKey slKey = Some key \<and> fst key = DB_BLOCK_INDEX \<and> GetValue slValue = Some diskindex
        \<and> load_entry GetBlockHash mapBlockIndex diskindex = (m, pindexNew, node) \<longrightarrow>
      pindexNew = GetBlockHash diskindex \<and> m pindexNew = Some node
      \<and> (\<exists>old. node = copy_fields old (hashPrev diskindex) diskindex)
      \<and> LoadBlockIndexGuts_loop GetKey GetValue GetBlockHash HeaderHash
          ((slKey, slValue) # rest) mapBlockIndex
        = (if HeaderHash node \<noteq> pindexNew then (False, m)
           else LoadBlockIndexGuts_loop GetKey GetValue GetBlockHash HeaderHash rest m))
   \<and> LoadBlockIndexGuts GetKey GetValue GetBlockHash HeaderHash db mapBlockIndex
       = LoadBlockIndexGuts_loop GetKey GetValue GetBlockHash HeaderHash
           (Seek (DB_BLOCK_INDEX # uint256_zero) db) mapBlockIndex"
proof (intro conjI impI)
  assume a: "GetKey slKey = Some key \<and> fst key = DB_BLOCK_INDEX \<and> GetValue slValue = Some diskindex
        \<and> load_entry GetBlockHash mapBlockIndex diskindex = (m, pindexNew, node)"
  then have l: "load_entry GetBlockHash mapBlockIndex diskindex = (m, pindexNew, node)" by simp
  from load_entry_result [OF l]
  show "pindexNew = GetBlockHash diskindex" "m pindexNew = Some node"
    "\<exists>old. node = copy_fields old (hashPrev diskindex) diskindex" by auto
  from a show "LoadBlockIndexGuts_loop GetKey GetValue GetBlockHash HeaderHash
          ((slKey, slValue) # rest) mapBlockIndex
        = (if HeaderHash node \<noteq> pindexNew then (False, m)
           else LoadBlockIndexGuts_loop GetKey GetValue GetBlockHash HeaderHash rest m)"
    by simp
qed (simp_all add: LoadBlockIndexGuts_def)


lemma demo_disk_record:
  "RawDiskBlockIndex ''nsp'' =
     Some \<lparr>pprev = None, nHeight = 1, nFile = 0, nDataPos = 0, nUndoPos = 0,
           hashSproutAnchor = uint256_zero, nVersion = 4, hashMerkleRoot = uint256_zero,
           hashFinalSaplingRoot = uint256_zero, nTime = 0, nBits = 0, nNonce = ''n'',
           nSolution = ''s'', nStatus = 0, nCachedBranchId = None, nTx = 1,
           nSproutValue = None, hashPrev = ''p''\<rparr>"
  by (simp add: RawDiskBlockIndex_def)

text \<open>
  Claim C9 at two concrete scans: one whose first value does not decode, one whose first
  record has a header hash different from its key; each is followed by a consistent entry.
\<close>

theorem load_stops_at_first_failure_witness:
  "RawGetKey (DB_BLOCK_INDEX # ''h'') = Some (DB_BLOCK_INDEX, ''h'')
   \<and> RawDiskBlockIndex ''x'' = None
   \<and> LoadBlockIndexGuts_loop RawGetKey RawDiskBlockIndex RawDiskHash RawHeaderHash
        [(DB_BLOCK_INDEX # ''h'', ''x''), (DB_BLOCK_INDEX # ''i'', ''nnp'')] Map.empty
      = (False, Map.empty)
   \<and> fst (LoadBlockIndexGuts_loop RawGetKey RawDiskBlockIndex RawDiskHash RawHeaderHash
        [(DB_BLOCK_INDEX # ''h'', ''nsp''), (DB_BLOCK_INDEX # ''i'', ''nnp'')] Map.empty)
      = False"
proof -
  define d where "d = \<lparr>pprev = None, nHeight = 1, nFile = 0, nDataPos = 0, nUndoPos = 0,
           hashSproutAnchor = uint256_zero, nVersion = 4, hashMerkleRoot = uint256_zero,
           hashFinalSaplingRoot = uint256_zero, nTime = 0, nBits = 0, nNonce = ''n'',
           nSolution = ''s'', nStatus = 0, nCachedBranchId = None, nTx = 1,
           nSproutValue = None, hashPrev = ''p''\<rparr>"
  define r where "r = load_entry RawDiskHash Map.empty d"
  have k: "RawGetKey (DB_BLOCK_INDEX # ''h'') = Some (DB_BLOCK_INDEX, ''h'')"
    by (simp add: RawGetKey_def)
  have x: "RawDiskBlockIndex ''x'' = None" by (simp add: RawDiskBlockIndex_def)
  have v: "RawDiskBlockIndex ''nsp'' = Some d" by (simp add: demo_disk_record d_def)
  have l: "load_entry RawDiskHash Map.empty d = (fst r, fst (snd r), snd (snd r))"
    by (simp add: r_def)
  have p: "fst (snd r) = ''n''"
    by (simp add: r_def load_entry_def InsertBlockIndex_def RawDiskHash_def d_def Let_def
        split: option.splits prod.splits)
  have n: "RawHeaderHash (snd (snd r)) = ''s''"
    by (simp add: r_def load_entry_def InsertBlockIndex_def RawHeaderHash_def d_def
        copy_fields_def Let_def split: option.splits prod.splits)
  have h: "RawDiskHash d = ''n''" by (simp add: RawDiskHash_def d_def)
  show ?thesis
    using load_stops_at_first_failure [where GetKey = RawGetKey and GetValue = RawDiskBlockIndex
        and GetBlockHash = RawDiskHash and HeaderHash = RawHeaderHash
        and slKey = "DB_BLOCK_INDEX # ''h''" and key = "(DB_BLOCK_INDEX, ''h'')"
        and slValue = "''x''" and mapBlockIndex = Map.empty
        and rest = "[(DB_BLOCK_INDEX # ''i'', ''nnp'')]"]
      load_stops_at_first_failure [where GetKey = RawGetKey and GetValue = RawDiskBlockIndex
        and GetBlockHash = RawDiskHash and HeaderHash = RawHeaderHash
        and slKey = "DB_BLOCK_INDEX # ''h''" and key = "(DB_BLOCK_INDEX, ''h'')"
        and slValue = "''nsp''" and mapBlockIndex = Map.empty and diskindex = d
        and m = "fst r" and pindexNew = "fst (snd r)" and node = "snd (snd r)"
        and rest = "[(DB_BLOCK_INDEX # ''i'', ''nnp'')]"]
      k x v l p n h
    by simp
qed

section \<open>The statistics scan\<close>

lemma GetStats_vout_result:
  "GetStats_vout C V outs i (st, ss, tot) = (st', ss', tot') \<Longrightarrow>
   ss' = ss @ concat (map (\<lambda>(j, out). V j @ SerializeOut C out)
        (filter (\<lambda>(j, out). \<not> IsNullOut C out) (enumerate (Suc i) outs)))
   \<and> nTransactionOutputs st' = nTransactionOutputs st
        + of_nat (length (filter (\<lambda>(j, out). \<not> IsNullOut C out) (enumerate (Suc i) outs)))
   \<and> tot' = tot + sum_list (map (\<lambda>(j, out). nValue C out)
        (filter (\<lambda>(j, out). \<not> IsNullOut C out) (enumerate (Suc i) outs)))
   \<and> hashBlock st' = hashBlock st"
proof (induction outs arbitrary: i st ss tot)
  case Nil
  then show ?case by simp
next
  case (Cons out outs)
  show ?case
  proof (cases "IsNullOut C out")
    case True
    with Cons.prems have "GetStats_vout C V outs (Suc i) (st, ss, tot) = (st', ss', tot')" by simp
    from Cons.IH [OF this] True show ?thesis by simp
  next
    case False
    with Cons.prems have "GetStats_vout C V outs (Suc i)
        (st\<lparr>nTransactionOutputs := nTransactionOutputs st + 1\<rparr>,
         ss @ V (Suc i) @ SerializeOut C out, tot + nValue C out) = (st', ss', tot')" by simp
    from Cons.IH [OF this] False show ?thesis by (simp add: algebra_simps)
  qed
qed


lemma GetStats_loop_result:
  "GetStats_loop C GK V entries (st, ss, tot) = (True, st', ss', tot') \<Longrightarrow>
   ss' = ss @ concat (map (record_stream C V) (coin_records C GK entries))
   \<and> nTransactionOutputs st' = nTransactionOutputs st
        + of_nat (length (concat (map (nonnull_outputs C) (coin_records C GK entries))))
   \<and> tot' = tot + sum_list (map (\<lambda>(j, out). nValue C out)
        (concat (map (nonnull_outputs C) (coin_records C GK entries))))
   \<and> hashBlock st' = hashBlock st"
proof (induction entries arbitrary: st ss tot)
  case Nil
  then show ?case by simp
next
  case (Cons e entries)
  obtain slKey slValue where e: "e = (slKey, slValue)" by (cases e)
  show ?case
  proof (cases "\<exists>key c. GK slKey = Some key \<and> fst key = DB_COINS \<and> UnserializeCoins C slValue = Some c")
    case False
    then have "coin_records C GK (e # entries) = []"
      unfolding e by (auto split: option.splits)
    moreover from False Cons.prems have "st' = st \<and> ss' = ss \<and> tot' = tot"
      unfolding e by (auto split: option.splits if_splits)
    ultimately show ?thesis by simp
  next
    case True
    then obtain key c where k: "GK slKey = Some key" "fst key = DB_COINS"
      "UnserializeCoins C slValue = Some c" by blast
    obtain st1 ss1 tot1 where v: "GetStats_vout C V (vout C c) 0
        (st\<lparr>nTransactions := nTransactions st + 1\<rparr>, ss, tot) = (st1, ss1, tot1)"
      by (cases "GetStats_vout C V (vout C c) 0 (st\<lparr>nTransactions := nTransactions st + 1\<rparr>, ss, tot)")
    from GetStats_vout_result [OF v]
    have v': "ss1 = ss @ concat (map (\<lambda>(j, out). V j @ SerializeOut C out) (nonnull_outputs C c))"
      "nTransactionOutputs st1 = nTransactionOutputs st + of_nat (length (nonnull_outputs C c))"
      "tot1 = tot + sum_list (map (\<lambda>(j, out). nValue C out) (nonnull_outputs C c))"
      "hashBlock st1 = hashBlock st"
      by (simp_all add: nonnull_outputs_def)
    from Cons.prems k v have "GetStats_loop C GK V entries
        (st1\<lparr>nSerializedSize := nSerializedSize st1 + (32 + of_nat (length slValue))\<rparr>,
         ss1 @ V 0, tot1) = (True, st', ss', tot')"
      unfolding e by simp
    from Cons.IH [OF this] have r: "ss' = (ss1 @ V 0) @ concat (map (record_stream C V) (coin_records C GK entries))"
      "nTransactionOutputs st' = nTransactionOutputs st1
        + of_nat (length (concat (map (nonnull_outputs C) (coin_records C GK entries))))"
      "tot' = tot1 + sum_list (map (\<lambda>(j, out). nValue C out)
        (concat (map (nonnull_outputs C) (coin_records C GK entries))))"
      "hashBlock st' = hashBlock st1"
      by simp_all
    have cr: "coin_records C GK (e # entries) = c # coin_records C GK entries"
      unfolding e using k by simp
    have rs: "record_stream C V c
        = concat (map (\<lambda>(j, out). V j @ SerializeOut C out) (nonnull_outputs C c)) @ V 0"
      by (simp add: record_stream_def)
    show ?thesis
      unfolding cr using r v' rs by (simp add: algebra_simps)
  qed
qed

lemma GetStats_result:
  assumes "GetStats C GK V H mbi db stats = Some (True, r)"
  shows "hashBlock r = GetBestBlock db"
    and "hashSerialized r = H (summary_stream C GK V db)"
    and "nTransactionOutputs r = nTransactionOutputs stats
        + of_nat (length (concat (map (nonnull_outputs C) (coin_records C GK (Seek [DB_COINS] db)))))"
    and "nTotalAmount r = sum_list (map (\<lambda>(j, out). nValue C out)
        (concat (map (nonnull_outputs C) (coin_records C GK (Seek [DB_COINS] db)))))"
proof -
  obtain ok st1 ss1 tot1 where l: "GetStats_loop C GK V (Seek [DB_COINS] db)
      (stats\<lparr>hashBlock := GetBestBlock db\<rparr>, GetBestBlock db, 0) = (ok, st1, ss1, tot1)"
    by (cases "GetStats_loop C GK V (Seek [DB_COINS] db)
      (stats\<lparr>hashBlock := GetBestBlock db\<rparr>, GetBestBlock db, 0)")
  from assms l have ok: "ok" by (cases ok) (simp_all add: GetStats_def Let_def)
  from assms l ok obtain height where h: "mbi (hashBlock st1) = Some height"
    and r: "r = st1\<lparr>CCoinsStats.nHeight := height, hashSerialized := H ss1, nTotalAmount := tot1\<rparr>"
    by (auto simp: GetStats_def Let_def split: option.splits)
  from l ok have "GetStats_loop C GK V (Seek [DB_COINS] db)
      (stats\<lparr>hashBlock := GetBestBlock db\<rparr>, GetBestBlock db, 0) = (True, st1, ss1, tot1)"
    by simp
  from GetStats_loop_result [OF this] r
  show "hashBlock r = GetBestBlock db"
    and "hashSerialized r = H (summary_stream C GK V db)"
    and "nTransactionOutputs r = nTransactionOutputs stats
        + of_nat (length (concat (map (nonnull_outputs C) (coin_records C GK (Seek [DB_COINS] db)))))"
    and "nTotalAmount r = sum_list (map (\<lambda>(j, out). nValue C out)
        (concat (map (nonnull_outputs C) (coin_records C GK (Seek [DB_COINS] db)))))"
    by (simp_all add: summary_stream_def)
qed

lemma record_stream_cong:
  "map (nonnull_outputs C) cs = map (nonnull_outputs C) cs' \<Longrightarrow>
   map (record_stream C V) cs = map (record_stream C V) cs'"
proof -
  assume a: "map (nonnull_outputs C) cs = map (nonnull_outputs C) cs'"
  have H: "\<And>xs. map (record_stream C V) xs
      = map (\<lambda>l. concat (map (\<lambda>(i, out). V i @ SerializeOut C out) l) @ V 0)
          (map (nonnull_outputs C) xs)"
    by (simp add: record_stream_def)
  show ?thesis by (simp only: H a)
qed

text \<open>
  Claim C8. When \<open>GetStats\<close> returns true, the summary hash is the hash of the stream
  that starts with the best-block hash and goes on, for each coin record the scan reaches,
  with each non-null output preceded by its 1-based index as a varint and then varint 0;
  the output count grows by the number of non-null outputs and the total amount is the sum
  of their values, so null outputs count for nothing. Hence two coin databases with the
  same best-block hash whose records, in scan order, have the same non-null outputs at the
  same indices give the same summary hash.
\<close>

theorem summary_hash_determined_by_nonnull_outputs:
  "(GetStats C GetKey VARINT Hash mapBlockIndex db stats = Some (True, r) \<longrightarrow>
      hashBlock r = GetBestBlock db
      \<and> hashSerialized r = Hash (summary_stream C GetKey VARINT db)
      \<and> nTransactionOutputs r = nTransactionOutputs stats
           + of_nat (length (concat (map (nonnull_outputs C)
               (coin_records C GetKey (Seek [DB_COINS] db)))))
      \<and> nTotalAmount r = sum_list (map (\<lambda>(i, out). nValue C out)
           (concat (map (nonnull_outputs C) (coin_records C GetKey (Seek [DB_COINS] db))))))
   \<and> (GetStats C GetKey VARINT Hash mapBlockIndex db stats = Some (True, r)
        \<and> GetStats C GetKey VARINT Hash mapBlockIndex' db' stats' = Some (True, r')
        \<and> GetBestBlock db = GetBestBlock db'
        \<and> map (nonnull_outputs C) (coin_records C GetKey (Seek [DB_COINS] db))
            = map (nonnull_outputs C) (coin_records C GetKey (Seek [DB_COINS] db')) \<longrightarrow>
      hashSerialized r = hashSerialized r')"
proof (intro conjI impI)
  assume a: "GetStats C GetKey VARINT Hash mapBlockIndex db stats = Some (True, r)
        \<and> GetStats C GetKey VARINT Hash mapBlockIndex' db' stats' = Some (True, r')
        \<and> GetBestBlock db = GetBestBlock db'
        \<and> map (nonnull_outputs C) (coin_records C GetKey (Seek [DB_COINS] db))
            = map (nonnull_outputs C) (coin_records C GetKey (Seek [DB_COINS] db'))"
  then have g: "GetStats C GetKey VARINT Hash mapBlockIndex db stats = Some (True, r)"
    and g': "GetStats C GetKey VARINT Hash mapBlockIndex' db' stats' = Some (True, r')"
    by simp_all
  have 1: "hashSerialized r = Hash (summary_stream C GetKey VARINT db)"
    by (rule GetStats_result(2) [OF g])
  have 2: "hashSerialized r' = Hash (summary_stream C GetKey VARINT db')"
    by (rule GetStats_result(2) [OF g'])
  from a have "summary_stream C GetKey VARINT db = summary_stream C GetKey VARINT db'"
    unfolding summary_stream_def
    using record_stream_cong [of C "coin_records C GetKey (Seek [DB_COINS] db)"
        "coin_records C GetKey (Seek [DB_COINS] db')" VARINT]
    by simp
  with 1 2 show "hashSerialized r = hashSerialized r'" by simp
qed (simp_all add: GetStats_result)

lemma GetStats_coins_demo:
  "GetStats RawCoins RawGetKey RawVARINT (\<lambda>bs. bs) (\<lambda>h. Some 7) coins_demo stats_zero
     = Some (True, stats_demo 35)"
  by code_simp

lemma GetStats_coins_demo':
  "GetStats RawCoins RawGetKey RawVARINT (\<lambda>bs. bs) (\<lambda>h. Some 7) coins_demo' stats_zero
     = Some (True, stats_demo 36)"
  by code_simp

lemma coins_demo_same_outputs:
  "GetBestBlock coins_demo = GetBestBlock coins_demo'
   \<and> map (nonnull_outputs RawCoins) (coin_records RawCoins RawGetKey (Seek [DB_COINS] coins_demo))
     = map (nonnull_outputs RawCoins) (coin_records RawCoins RawGetKey (Seek [DB_COINS] coins_demo'))"
  by code_simp

text \<open>
  Claim C8 at two concrete coin databases whose only record differs in a trailing null
  output: the scans succeed and give the same summary hash, the stream spelled out.
\<close>

theorem summary_hash_determined_by_nonnull_outputs_witness:
  "GetStats RawCoins RawGetKey RawVARINT (\<lambda>bs. bs) (\<lambda>h. Some 7) coins_demo stats_zero
     = Some (True, stats_demo 35)
   \<and> GetStats RawCoins RawGetKey RawVARINT (\<lambda>bs. bs) (\<lambda>h. Some 7) coins_demo' stats_zero
     = Some (True, stats_demo 36)
   \<and> summary_stream RawCoins RawGetKey RawVARINT coins_demo
     = hash_of_byte (CHR 0x01) @ [CHR 0x01, CHR ''a'', CHR 0x03, CHR ''b'', CHR 0x00]
   \<and> hashSerialized (stats_demo 35) = hashSerialized (stats_demo 36)"
proof -
  note T = summary_hash_determined_by_nonnull_outputs [where C = RawCoins and GetKey = RawGetKey
      and VARINT = RawVARINT and Hash = "\<lambda>bs. bs" and mapBlockIndex = "\<lambda>h. Some 7"
      and mapBlockIndex' = "\<lambda>h. Some 7" and db = coins_demo and db' = coins_demo'
      and stats = stats_zero and stats' = stats_zero and r = "stats_demo 35"
      and r' = "stats_demo 36"]
  note A = T [THEN conjunct1, THEN mp, OF GetStats_coins_demo]
  have s: "summary_stream RawCoins RawGetKey RawVARINT coins_demo = hashSerialized (stats_demo 35)"
    using A by simp
  have e: "hashSerialized (stats_demo 35) = hashSerialized (stats_demo 36)"
    using T [THEN conjunct2, THEN mp] GetStats_coins_demo GetStats_coins_demo'
      coins_demo_same_outputs by blast
  have h: "hashSerialized (stats_demo 35)
      = hash_of_byte (CHR 0x01) @ [CHR 0x01, CHR ''a'', CHR 0x03, CHR ''b'', CHR 0x00]"
    by (simp add: stats_demo_def)
  show ?thesis
    using GetStats_coins_demo GetStats_coins_demo' s e h by simp
qed

end
